theory Spec2Isabelle
  imports Main "HOL-Library.Word"
begin

section \<open>Garmin Connect API wrapper (api/main.py)\<close>

text \<open>
  The module is a set of FastAPI handlers in front of the third-party \<^verbatim>\<open>garminconnect\<close>
  client. Each handler is embedded as a HOL function of
  \<^item> the \<^emph>\<open>world\<close>: the process environment and the behaviour of the upstream client, one
    function per method the module calls, returning \<open>Inl\<close> for a raised exception;
  \<^item> the request parameters;
  \<^item> the token store on disk.
  A handler's run gives the outcome of the Python function (a returned body, a raised
  \<^verbatim>\<open>HTTPException\<close>, or another exception leaving the handler), the list of upstream calls
  it made, in order, and the token store afterwards. What the framework does around a
  handler (routing, validation of request and response models, the error page for an
  exception that leaves a handler) is outside the module and outside the model.
\<close>

subsection \<open>Python values and exceptions\<close>

type_synonym byte = "8 word"

text \<open>Values the upstream client hands back and the module passes on without looking inside.\<close>

datatype pyval =
    PyNone
  | PyBool bool
  | PyInt int
  | PyStr string
  | PyList "pyval list"
  | PyDict "(string \<times> pyval) list"
  | PyObject string

text \<open>
  An exception is an instance of \<^verbatim>\<open>Exception\<close>: its class and its \<^verbatim>\<open>str(err)\<close>. The classes
  are the ones the module names (line 12 and line 49), the \<^verbatim>\<open>UnicodeDecodeError\<close> of
  \<^verbatim>\<open>bytes.decode\<close>, and every other class, under its name, that is none of these and no
  subclass of them. The library declares its three classes as direct subclasses of
  \<^verbatim>\<open>Exception\<close>, unrelated to each other, so \<^verbatim>\<open>isinstance\<close> is equality of classes here.
  What is raised outside \<^verbatim>\<open>Exception\<close> (\<^verbatim>\<open>KeyboardInterrupt\<close>, \<^verbatim>\<open>SystemExit\<close>) ends the
  process rather than the request and is not modelled.
\<close>

datatype exn_class =
    GarminConnectAuthenticationError
  | GarminConnectTooManyRequestsError
  | GarminConnectConnectionError
  | FileNotFoundError
  | UnicodeDecodeError
  | OtherException string

datatype exn = Exn (class_of: exn_class) (str_of: string)

definition isinstance :: "exn \<Rightarrow> exn_class \<Rightarrow> bool" where
  "isinstance err c = (class_of err = c)"

datatype http_exception = HTTPException (status_code: nat) (detail: string)

text \<open>
  What a handler does: it returns a body, it falls off its end (Python then returns
  \<^verbatim>\<open>None\<close>), it raises an \<^verbatim>\<open>HTTPException\<close>, or another exception leaves it.
\<close>

datatype 'a outcome =
    Returns 'a
  | ReturnsNone
  | Raises http_exception
  | Escapes exn

subsection \<open>The fault translator\<close>

text \<open>
  \<^verbatim>\<open>_raise_from_err\<close>, lines 53 to 60. \<open>Inl\<close> is the raised \<^verbatim>\<open>HTTPException\<close>; \<open>Inr ()\<close>
  would be a normal return.
\<close>

definition raise_from_err :: "exn \<Rightarrow> http_exception + unit" where
  "raise_from_err err =
     (if isinstance err GarminConnectAuthenticationError then
        Inl (HTTPException 401 ''Authentication error'')
      else if isinstance err GarminConnectTooManyRequestsError then
        Inl (HTTPException 429 ''Too many requests'')
      else if isinstance err GarminConnectConnectionError then
        Inl (HTTPException 502 ''Upstream connection error'')
      else Inl (HTTPException 500 (str_of err)))"

text \<open>
  The clause \<^verbatim>\<open>except Exception as err: _raise_from_err(err)\<close> that ends every handler:
  were the translator to return, the handler would fall off its end.
\<close>

definition except_Exception :: "exn \<Rightarrow> 'a outcome" where
  "except_Exception err =
     (case raise_from_err err of
        Inl http \<Rightarrow> Raises http
      | Inr _ \<Rightarrow> ReturnsNone)"

subsection \<open>Requests, responses and the upstream client\<close>

text \<open>The pydantic models of lines 19 to 33.\<close>

record LoginRequest =
  email :: "string option"
  password :: "string option"
  is_cn :: bool
  return_on_mfa :: bool

record LoginResponse =
  status :: string
  client_state :: pyval

record ResumeLoginRequest =
  resume_client_state :: "(string \<times> pyval) list"
  mfa_code :: string

text \<open>The bodies of the download and identity handlers, which return plain dicts.\<close>

record DownloadResponse =
  activity_id :: string
  format :: string
  data_base64 :: string

record WhoamiResponse =
  full_name :: pyval
  unit_system :: pyval

text \<open>
  The token store: the file system as far as the module sees it, a path and the
  serialized tokens under it. Its layout belongs to the client library.
\<close>

type_synonym token_store = "string \<rightharpoonup> string"

text \<open>
  A \<^verbatim>\<open>Garmin\<close> client object: the constructor's arguments and the tokens it holds
  (\<^verbatim>\<open>garmin.garth\<close>) once a login has filled them in.
\<close>

record garmin =
  g_email :: "string option"
  g_password :: "string option"
  g_is_cn :: bool
  g_return_on_mfa :: bool
  g_garth :: "string option"

definition Garmin :: "string option \<Rightarrow> string option \<Rightarrow> bool \<Rightarrow> bool \<Rightarrow> garmin" where
  "Garmin e p cn mfa =
     \<lparr>g_email = e, g_password = p, g_is_cn = cn, g_return_on_mfa = mfa, g_garth = None\<rparr>"

text \<open>
  The world of one request. \<open>Garmin_login g ts st\<close> is \<^verbatim>\<open>g.login(ts)\<close>: with a token-store
  path it loads the stored session, with \<open>None\<close> (\<^verbatim>\<open>g.login()\<close>) it logs in with the
  client's email and password; it returns the pair of tokens and the client as the call
  leaves it, and only reads the store. \<open>garth_dump g path st\<close> is \<^verbatim>\<open>g.garth.dump(path)\<close>,
  the one call that writes the store: it gives the exception it raised, if any, and the
  store afterwards. \<open>getattr_ActivityDownloadFormat\<close> is
  \<^verbatim>\<open>getattr(Garmin.ActivityDownloadFormat, fmt)\<close>.
\<close>

record world =
  getenv_GARMINTOKENS :: "string option"
  expanduser :: "string \<Rightarrow> string"
  Garmin_login :: "garmin \<Rightarrow> string option \<Rightarrow> token_store \<Rightarrow> exn + ((pyval \<times> pyval) \<times> garmin)"
  Garmin_resume_login :: "garmin \<Rightarrow> pyval \<Rightarrow> string \<Rightarrow> exn + garmin"
  garth_dump :: "garmin \<Rightarrow> string \<Rightarrow> token_store \<Rightarrow> exn option \<times> token_store"
  Garmin_get_user_summary :: "garmin \<Rightarrow> string \<Rightarrow> exn + pyval"
  Garmin_get_activities :: "garmin \<Rightarrow> int \<Rightarrow> int \<Rightarrow> string option \<Rightarrow> exn + pyval"
  getattr_ActivityDownloadFormat :: "string \<Rightarrow> exn + pyval"
  Garmin_download_activity :: "garmin \<Rightarrow> string \<Rightarrow> pyval \<Rightarrow> exn + byte list"
  Garmin_get_full_name :: "garmin \<Rightarrow> exn + pyval"
  Garmin_get_unit_system :: "garmin \<Rightarrow> exn + pyval"

text \<open>The upstream calls a handler makes, in the order it makes them.\<close>

datatype event =
    Call_login garmin "string option"
  | Call_resume_login pyval string
  | Call_dump string
  | Call_get_user_summary string
  | Call_get_activities int int "string option"
  | Call_download_activity string pyval
  | Call_get_full_name
  | Call_get_unit_system

record 'a run =
  outcome :: "'a outcome"
  events :: "event list"
  store :: token_store

text \<open>
  \<^verbatim>\<open>os.getenv("GARMINTOKENS") or os.path.expanduser("~/.garminconnect")\<close>, the expression of
  lines 88, 103, 115, 128, 141 and 156: Python's \<^verbatim>\<open>or\<close> takes the right side when the left
  is \<^verbatim>\<open>None\<close> or the empty string.
\<close>

definition tokenstore_path :: "world \<Rightarrow> string" where
  "tokenstore_path w =
     (case getenv_GARMINTOKENS w of
        Some p \<Rightarrow> if p \<noteq> [] then p else expanduser w ''~/.garminconnect''
      | None \<Rightarrow> expanduser w ''~/.garminconnect'')"

subsection \<open>Credential resolution from the token store\<close>

text \<open>
  \<^verbatim>\<open>_instantiate_api_from_tokenstore\<close>, lines 44 to 50: \<open>Inr (Some g)\<close> is the logged-in
  client, \<open>Inr None\<close> the \<^verbatim>\<open>None\<close> of line 50, \<open>Inl err\<close> an exception the \<^verbatim>\<open>except\<close> clause
  of line 49 does not name.
\<close>

definition instantiate_api_from_tokenstore ::
  "world \<Rightarrow> string option \<Rightarrow> token_store \<Rightarrow> (exn + garmin option) \<times> event list" where
  "instantiate_api_from_tokenstore w tokenstore st =
     (let garmin = Garmin None None False False in
      (case Garmin_login w garmin tokenstore st of
         Inr (_, garmin') \<Rightarrow> Inr (Some garmin')
       | Inl err \<Rightarrow>
           if isinstance err FileNotFoundError \<or> isinstance err GarminConnectAuthenticationError
           then Inr None
           else Inl err,
       [Call_login garmin tokenstore]))"

definition not_logged_in :: http_exception where
  "not_logged_in = HTTPException 401 ''Not logged in. Use /login first.''"

subsection \<open>POST /login and POST /login/resume\<close>

text \<open>
  Lines 76 to 95 of \<^verbatim>\<open>login\<close>: the login with the request's credentials, reached when no
  stored session was reused. \<open>ev\<close> is what the handler has called so far. The path of
  line 88 is \<open>tokenstore_path\<close>, the variable being the one read at line 70. The clause
  \<^verbatim>\<open>except Exception: pass\<close> of lines 91 and 92 drops whatever the dump raised
  (\<open>dump_err\<close>) and goes on to the \<^verbatim>\<open>return\<close> of line 93.
\<close>

definition login_with_credentials ::
  "world \<Rightarrow> LoginRequest \<Rightarrow> token_store \<Rightarrow> event list \<Rightarrow> LoginResponse run" where
  "login_with_credentials w body st ev =
     (let garmin = Garmin (email body) (password body) (is_cn body) (return_on_mfa body);
          ev1 = ev @ [Call_login garmin None] in
      case Garmin_login w garmin None st of
        Inl err \<Rightarrow> \<lparr>outcome = except_Exception err, events = ev1, store = st\<rparr>
      | Inr ((token1, token2), garmin') \<Rightarrow>
          if token1 = PyStr ''needs_mfa'' then
            \<lparr>outcome = Returns \<lparr>status = ''needs_mfa'', client_state = token2\<rparr>,
             events = ev1, store = st\<rparr>
          else
            let tokenstore = tokenstore_path w;
                (dump_err, st') = garth_dump w garmin' tokenstore st in
            \<lparr>outcome = Returns \<lparr>status = ''ok'', client_state = PyNone\<rparr>,
             events = ev1 @ [Call_dump tokenstore], store = st'\<rparr>)"

text \<open>\<^verbatim>\<open>login\<close>, lines 68 to 95.\<close>

definition login :: "world \<Rightarrow> LoginRequest \<Rightarrow> token_store \<Rightarrow> LoginResponse run" where
  "login w body st =
     (case getenv_GARMINTOKENS w of
        None \<Rightarrow> login_with_credentials w body st []
      | Some tokenstore_env \<Rightarrow>
          if tokenstore_env = [] then login_with_credentials w body st []
          else
            (case instantiate_api_from_tokenstore w (Some tokenstore_env) st of
               (Inl err, ev) \<Rightarrow> \<lparr>outcome = Escapes err, events = ev, store = st\<rparr>
             | (Inr (Some garmin), ev) \<Rightarrow>
                 \<lparr>outcome = Returns \<lparr>status = ''ok'', client_state = PyNone\<rparr>,
                  events = ev, store = st\<rparr>
             | (Inr None, ev) \<Rightarrow> login_with_credentials w body st ev))"

text \<open>\<^verbatim>\<open>resume_login\<close>, lines 98 to 110.\<close>

definition resume_login :: "world \<Rightarrow> ResumeLoginRequest \<Rightarrow> token_store \<Rightarrow> LoginResponse run" where
  "resume_login w body st =
     (let garmin = Garmin None None False True;
          ev1 = [Call_resume_login (PyDict (resume_client_state body)) (mfa_code body)] in
      case Garmin_resume_login w garmin (PyDict (resume_client_state body)) (mfa_code body) of
        Inl err \<Rightarrow> \<lparr>outcome = except_Exception err, events = ev1, store = st\<rparr>
      | Inr garmin' \<Rightarrow>
          let tokenstore = tokenstore_path w;
              (dump_err, st') = garth_dump w garmin' tokenstore st in
          \<lparr>outcome = Returns \<lparr>status = ''ok'', client_state = PyNone\<rparr>,
           events = ev1 @ [Call_dump tokenstore], store = st'\<rparr>)"

subsection \<open>Base64\<close>

text \<open>
  \<^verbatim>\<open>base64.b64encode\<close> of the standard library, as RFC 4648 section 4 defines it: every
  three bytes give four digits of six bits each, a last group of one or two bytes is filled
  with zero bits and padded with \<^verbatim>\<open>=\<close>. Its result is a \<^verbatim>\<open>bytes\<close> object, which
  \<^verbatim>\<open>.decode("ascii")\<close> turns into a \<^verbatim>\<open>str\<close>, raising \<^verbatim>\<open>UnicodeDecodeError\<close> on a byte above
  127.
\<close>

definition b64_alphabet :: string where
  "b64_alphabet = ''ABCDEFGHIJKLMNOPQRSTUVWXYZabcdefghijklmnopqrstuvwxyz0123456789+/''"

definition byte_of_char :: "char \<Rightarrow> byte" where
  "byte_of_char c = of_nat (of_char c)"

definition char_of_byte :: "byte \<Rightarrow> char" where
  "char_of_byte b = char_of (unat b)"

definition b64_digit :: "nat \<Rightarrow> byte" where
  "b64_digit n = byte_of_char (b64_alphabet ! n)"

definition b64_pad :: byte where
  "b64_pad = byte_of_char (CHR ''='')"

fun b64encode :: "byte list \<Rightarrow> byte list" where
  "b64encode [] = []"
| "b64encode [b1] =
     (let n = unat b1 * 16 in
      [b64_digit (n div 64), b64_digit (n mod 64), b64_pad, b64_pad])"
| "b64encode [b1, b2] =
     (let n = (unat b1 * 256 + unat b2) * 4 in
      [b64_digit (n div 4096), b64_digit (n div 64 mod 64), b64_digit (n mod 64), b64_pad])"
| "b64encode (b1 # b2 # b3 # rest) =
     (let n = unat b1 * 65536 + unat b2 * 256 + unat b3 in
      [b64_digit (n div 262144), b64_digit (n div 4096 mod 64),
       b64_digit (n div 64 mod 64), b64_digit (n mod 64)] @ b64encode rest)"

definition decode_ascii :: "byte list \<Rightarrow> exn + string" where
  "decode_ascii bs =
     (if list_all (\<lambda>b. unat b < 128) bs then Inr (map char_of_byte bs)
      else Inl (Exn UnicodeDecodeError ''ascii codec cannot decode byte''))"

text \<open>
  The decoder a caller applies to \<^verbatim>\<open>data_base64\<close>, RFC 4648 again: four digits give three
  bytes, and a last group ending in one or two \<^verbatim>\<open>=\<close> gives two bytes or one. \<open>None\<close> is a
  string that is not base64. The encoder only asks \<open>b64_digit\<close> for digits below 64, the
  length of the alphabet.
\<close>

definition b64_index :: "char \<Rightarrow> nat option" where
  "b64_index c = map_of (zip b64_alphabet [0..<64]) c"

fun b64decode :: "string \<Rightarrow> byte list option" where
  "b64decode [] = Some []"
| "b64decode (c1 # c2 # c3 # c4 # rest) =
     (case (b64_index c1, b64_index c2) of
        (Some i1, Some i2) \<Rightarrow>
          if rest = [] \<and> c3 = CHR ''='' \<and> c4 = CHR ''='' then
            Some [of_nat ((i1 * 64 + i2) div 16)]
          else
            (case b64_index c3 of
               None \<Rightarrow> None
             | Some i3 \<Rightarrow>
                 if rest = [] \<and> c4 = CHR ''='' then
                   (let n = ((i1 * 64 + i2) * 64 + i3) div 4 in
                    Some [of_nat (n div 256), of_nat (n mod 256)])
                 else
                   (case b64_index c4 of
                      None \<Rightarrow> None
                    | Some i4 \<Rightarrow>
                        (let n = ((i1 * 64 + i2) * 64 + i3) * 64 + i4 in
                         map_option
                           ((@) [of_nat (n div 65536), of_nat (n div 256 mod 256),
                                 of_nat (n mod 256)])
                           (b64decode rest))))
      | _ \<Rightarrow> None)"
| "b64decode _ = None"

subsection \<open>The read-only handlers\<close>

record SummaryResponse =
  summary_data :: pyval

record ActivitiesResponse =
  activities_data :: pyval

text \<open>\<^verbatim>\<open>get_user_summary\<close>, lines 113 to 123.\<close>

definition get_user_summary :: "world \<Rightarrow> string \<Rightarrow> token_store \<Rightarrow> SummaryResponse run" where
  "get_user_summary w cdate st =
     (let tokenstore = tokenstore_path w in
      case instantiate_api_from_tokenstore w (Some tokenstore) st of
        (Inl err, ev) \<Rightarrow> \<lparr>outcome = Escapes err, events = ev, store = st\<rparr>
      | (Inr None, ev) \<Rightarrow> \<lparr>outcome = Raises not_logged_in, events = ev, store = st\<rparr>
      | (Inr (Some garmin), ev) \<Rightarrow>
          \<lparr>outcome =
             (case Garmin_get_user_summary w garmin cdate of
                Inl err \<Rightarrow> except_Exception err
              | Inr d \<Rightarrow> Returns \<lparr>summary_data = d\<rparr>),
           events = ev @ [Call_get_user_summary cdate], store = st\<rparr>)"

text \<open>\<^verbatim>\<open>get_activities\<close>, lines 126 to 136.\<close>

definition get_activities ::
  "world \<Rightarrow> int \<Rightarrow> int \<Rightarrow> string option \<Rightarrow> token_store \<Rightarrow> ActivitiesResponse run" where
  "get_activities w start limit activitytype st =
     (let tokenstore = tokenstore_path w in
      case instantiate_api_from_tokenstore w (Some tokenstore) st of
        (Inl err, ev) \<Rightarrow> \<lparr>outcome = Escapes err, events = ev, store = st\<rparr>
      | (Inr None, ev) \<Rightarrow> \<lparr>outcome = Raises not_logged_in, events = ev, store = st\<rparr>
      | (Inr (Some garmin), ev) \<Rightarrow>
          \<lparr>outcome =
             (case Garmin_get_activities w garmin start limit activitytype of
                Inl err \<Rightarrow> except_Exception err
              | Inr d \<Rightarrow> Returns \<lparr>activities_data = d\<rparr>),
           events = ev @ [Call_get_activities start limit activitytype], store = st\<rparr>)"

text \<open>
  \<^verbatim>\<open>download_activity\<close>, lines 139 to 151. The \<^verbatim>\<open>enum\<close> of the query parameter only
  documents it, so \<open>fmt\<close> is any string and the \<^verbatim>\<open>getattr\<close> of line 146 can raise.
\<close>

definition download_activity ::
  "world \<Rightarrow> string \<Rightarrow> string \<Rightarrow> token_store \<Rightarrow> DownloadResponse run" where
  "download_activity w aid fmt st =
     (let tokenstore = tokenstore_path w in
      case instantiate_api_from_tokenstore w (Some tokenstore) st of
        (Inl err, ev) \<Rightarrow> \<lparr>outcome = Escapes err, events = ev, store = st\<rparr>
      | (Inr None, ev) \<Rightarrow> \<lparr>outcome = Raises not_logged_in, events = ev, store = st\<rparr>
      | (Inr (Some garmin), ev) \<Rightarrow>
          (case getattr_ActivityDownloadFormat w fmt of
             Inl err \<Rightarrow> \<lparr>outcome = except_Exception err, events = ev, store = st\<rparr>
           | Inr fmt_enum \<Rightarrow>
               \<lparr>outcome =
                  (case Garmin_download_activity w garmin aid fmt_enum of
                     Inl err \<Rightarrow> except_Exception err
                   | Inr raw \<Rightarrow>
                       (case decode_ascii (b64encode raw) of
                          Inl err \<Rightarrow> except_Exception err
                        | Inr s \<Rightarrow>
                            Returns \<lparr>activity_id = aid, format = fmt, data_base64 = s\<rparr>)),
                events = ev @ [Call_download_activity aid fmt_enum], store = st\<rparr>))"

text \<open>\<^verbatim>\<open>whoami\<close>, lines 154 to 163.\<close>

definition whoami :: "world \<Rightarrow> token_store \<Rightarrow> WhoamiResponse run" where
  "whoami w st =
     (let tokenstore = tokenstore_path w in
      case instantiate_api_from_tokenstore w (Some tokenstore) st of
        (Inl err, ev) \<Rightarrow> \<lparr>outcome = Escapes err, events = ev, store = st\<rparr>
      | (Inr None, ev) \<Rightarrow> \<lparr>outcome = Raises not_logged_in, events = ev, store = st\<rparr>
      | (Inr (Some garmin), ev) \<Rightarrow>
          (case Garmin_get_full_name w garmin of
             Inl err \<Rightarrow>
               \<lparr>outcome = except_Exception err, events = ev @ [Call_get_full_name], store = st\<rparr>
           | Inr name \<Rightarrow>
               \<lparr>outcome =
                  (case Garmin_get_unit_system w garmin of
                     Inl err \<Rightarrow> except_Exception err
                   | Inr units \<Rightarrow> Returns \<lparr>full_name = name, unit_system = units\<rparr>),
                events = ev @ [Call_get_full_name, Call_get_unit_system], store = st\<rparr>))"

subsection \<open>The properties, in terms of the model\<close>

text \<open>
  The fault table of section 4.3 of the specification, following its words: one row for
  each of the three upstream conditions, and the stringified failure for everything else.
\<close>

definition fault_table :: "exn \<Rightarrow> http_exception" where
  "fault_table err =
     (case class_of err of
        GarminConnectAuthenticationError \<Rightarrow> HTTPException 401 ''Authentication error''
      | GarminConnectTooManyRequestsError \<Rightarrow> HTTPException 429 ''Too many requests''
      | GarminConnectConnectionError \<Rightarrow> HTTPException 502 ''Upstream connection error''
      | _ \<Rightarrow> HTTPException 500 (str_of err))"

text \<open>
  The token-store path following the words of section 6 of the specification: the value
  of the variable when it is set, the default otherwise.
\<close>

definition spec_tokenstore_path :: "world \<Rightarrow> string" where
  "spec_tokenstore_path w =
     (case getenv_GARMINTOKENS w of
        Some p \<Rightarrow> p
      | None \<Rightarrow> expanduser w ''~/.garminconnect'')"

text \<open>
  Kinds of upstream call: a login that presents credentials or a second factor, a read of
  the token store, a write of the token store.
\<close>

definition interactive_login :: "event \<Rightarrow> bool" where
  "interactive_login e =
     (case e of
        Call_login g None \<Rightarrow> True
      | Call_resume_login cs code \<Rightarrow> True
      | _ \<Rightarrow> False)"

definition tokenstore_read :: "event \<Rightarrow> bool" where
  "tokenstore_read e = (case e of Call_login g (Some p) \<Rightarrow> True | _ \<Rightarrow> False)"

definition tokenstore_write :: "event \<Rightarrow> bool" where
  "tokenstore_write e = (case e of Call_dump p \<Rightarrow> True | _ \<Rightarrow> False)"

text \<open>
  "No valid stored session exists", following the words of sections 4.1 and 7 of the
  specification: loading the store at the resolved path gives no session, whatever the
  failure is (a missing file, a rejected token, a store that cannot be read or parsed).
\<close>

definition spec_no_valid_session :: "world \<Rightarrow> token_store \<Rightarrow> bool" where
  "spec_no_valid_session w st =
     (case Garmin_login w (Garmin None None False False) (Some (tokenstore_path w)) st of
        Inl err \<Rightarrow> True
      | Inr _ \<Rightarrow> False)"

text \<open>The client \<^verbatim>\<open>login\<close> builds from the request body, lines 76 to 81.\<close>

definition credentials_client :: "LoginRequest \<Rightarrow> garmin" where
  "credentials_client body =
     Garmin (email body) (password body) (is_cn body) (return_on_mfa body)"

definition ok_response :: LoginResponse where
  "ok_response = \<lparr>status = ''ok'', client_state = PyNone\<rparr>"

subsection \<open>Concrete worlds\<close>

text \<open>
  A small upstream to run the handlers on. Its login loads whatever the store holds at the
  path, or takes the password \<^verbatim>\<open>secret\<close> and asks for a second factor when the client was
  built with \<^verbatim>\<open>return_on_mfa\<close>; its second factor is \<^verbatim>\<open>123456\<close>; every download is the
  four bytes \<^verbatim>\<open>Man!\<close>.
\<close>

definition demo_login ::
  "garmin \<Rightarrow> string option \<Rightarrow> token_store \<Rightarrow> exn + ((pyval \<times> pyval) \<times> garmin)" where
  "demo_login g ts st =
     (case ts of
        Some p \<Rightarrow>
          (case st p of
             None \<Rightarrow> Inl (Exn FileNotFoundError p)
           | Some tok \<Rightarrow> Inr ((PyNone, PyNone), g\<lparr>g_garth := Some tok\<rparr>))
      | None \<Rightarrow>
          if g_password g \<noteq> Some ''secret'' then
            Inl (Exn GarminConnectAuthenticationError ''Invalid credentials'')
          else if g_return_on_mfa g then
            Inr ((PyStr ''needs_mfa'', PyDict [(''ticket'', PyStr ''T1'')]), g)
          else
            Inr ((PyObject ''OAuth1Token'', PyObject ''OAuth2Token''),
                 g\<lparr>g_garth := Some ''fresh''\<rparr>))"

definition demo_world :: world where
  "demo_world =
     \<lparr>getenv_GARMINTOKENS = None,
      expanduser = (\<lambda>p. ''/home/user'' @ drop 1 p),
      Garmin_login = demo_login,
      Garmin_resume_login =
        (\<lambda>g cs code.
           if code = ''123456'' then Inr (g\<lparr>g_garth := Some ''fresh''\<rparr>)
           else Inl (Exn GarminConnectAuthenticationError ''Invalid MFA code'')),
      garth_dump = (\<lambda>g path st. (None, st(path \<mapsto> ''fresh''))),
      Garmin_get_user_summary = (\<lambda>g cdate. Inr (PyDict [(''totalSteps'', PyInt 1000)])),
      Garmin_get_activities = (\<lambda>g start limit activitytype. Inr (PyList [])),
      getattr_ActivityDownloadFormat =
        (\<lambda>fmt.
           if fmt \<in> set [''ORIGINAL'', ''TCX'', ''GPX'', ''KML'', ''CSV''] then Inr (PyObject fmt)
           else Inl (Exn (OtherException ''AttributeError'') fmt)),
      Garmin_download_activity = (\<lambda>g aid fmt. Inr [77, 97, 110, 33]),
      Garmin_get_full_name = (\<lambda>g. Inr (PyStr ''Test User'')),
      Garmin_get_unit_system = (\<lambda>g. Inr (PyStr ''metric''))\<rparr>"

definition demo_store :: token_store where
  "demo_store = [''/home/user/.garminconnect'' \<mapsto> ''stored'']"

text \<open>The same upstream when the network is down, so that loading the store fails.\<close>

definition offline_world :: world where
  "offline_world =
     demo_world\<lparr>Garmin_login :=
       (\<lambda>g ts st. Inl (Exn GarminConnectConnectionError ''Connection refused''))\<rparr>"

text \<open>The same upstream under \<^verbatim>\<open>GARMINTOKENS=\<close>, the variable set to the empty string.\<close>

definition empty_env_world :: world where
  "empty_env_world = demo_world\<lparr>getenv_GARMINTOKENS := Some []\<rparr>"

text \<open>The same upstream on a disk that refuses every write.\<close>

definition readonly_disk_world :: world where
  "readonly_disk_world =
     demo_world\<lparr>garth_dump :=
       (\<lambda>g path st. (Some (Exn (OtherException ''PermissionError'') path), st))\<rparr>"

text \<open>The same upstream with a token store on disk that is there but cannot be parsed.\<close>

definition corrupt_store_world :: world where
  "corrupt_store_world =
     demo_world\<lparr>Garmin_login :=
       (\<lambda>g ts st. Inl (Exn (OtherException ''JSONDecodeError'') ''Expecting value''))\<rparr>"

text \<open>An upstream that asks for a second factor and hands back no challenge state.\<close>

definition stateless_challenge_world :: world where
  "stateless_challenge_world =
     demo_world\<lparr>Garmin_login := (\<lambda>g ts st. Inr ((PyStr ''needs_mfa'', PyNone), g))\<rparr>"

definition mfa_request :: LoginRequest where
  "mfa_request =
     \<lparr>email = Some ''user@example.com'', password = Some ''secret'',
      is_cn = False, return_on_mfa = True\<rparr>"

definition plain_request :: LoginRequest where
  "plain_request =
     \<lparr>email = Some ''user@example.com'', password = Some ''secret'',
      is_cn = False, return_on_mfa = False\<rparr>"

definition wrong_request :: LoginRequest where
  "wrong_request =
     \<lparr>email = Some ''user@example.com'', password = Some ''guess'',
      is_cn = False, return_on_mfa = False\<rparr>"

definition demo_resume :: ResumeLoginRequest where
  "demo_resume = \<lparr>resume_client_state = [(''ticket'', PyStr ''T1'')], mfa_code = ''123456''\<rparr>"

section \<open>Verification\<close>

lemmas handler_defs = get_user_summary_def get_activities_def download_activity_def whoami_def
  login_def login_with_credentials_def resume_login_def
  instantiate_api_from_tokenstore_def Let_def

lemmas demo_defs = demo_world_def demo_login_def demo_store_def mfa_request_def
  plain_request_def wrong_request_def demo_resume_def Garmin_def tokenstore_path_def
  isinstance_def credentials_client_def

subsection \<open>The fault translator\<close>

lemma raise_from_err_table: "raise_from_err err = Inl (fault_table err)"
  by (cases "class_of err") (simp_all add: raise_from_err_def fault_table_def isinstance_def)

lemma except_Exception_table: "except_Exception err = Raises (fault_table err)"
  by (simp add: except_Exception_def raise_from_err_table)

lemma fault_table_status: "status_code (fault_table err) \<in> {401, 429, 502, 500}"
  by (cases "class_of err") (simp_all add: fault_table_def)

text \<open>
  Claim C4. Whatever exception the fault translator is given, it raises the row of the
  fault table for it: 401 \<^verbatim>\<open>Authentication error\<close> for an upstream authentication error,
  429 \<^verbatim>\<open>Too many requests\<close> for a rate-limit error (so never 500), 502
  \<^verbatim>\<open>Upstream connection error\<close> for a connection error, and 500 with \<^verbatim>\<open>str(err)\<close> for
  every other exception. The translator takes the exception alone, so the result cannot
  depend on the operation that raised it.
\<close>

theorem fault_translator_follows_table:
  "raise_from_err err = Inl (fault_table err)
   \<and> (class_of err = GarminConnectAuthenticationError \<longrightarrow>
        raise_from_err err = Inl (HTTPException 401 ''Authentication error''))
   \<and> (class_of err = GarminConnectTooManyRequestsError \<longrightarrow>
        raise_from_err err = Inl (HTTPException 429 ''Too many requests''))
   \<and> (class_of err = GarminConnectConnectionError \<longrightarrow>
        raise_from_err err = Inl (HTTPException 502 ''Upstream connection error''))
   \<and> (class_of err \<notin> {GarminConnectAuthenticationError, GarminConnectTooManyRequestsError,
          GarminConnectConnectionError} \<longrightarrow>
        raise_from_err err = Inl (HTTPException 500 (str_of err)))"
  by (cases "class_of err") (simp_all add: raise_from_err_def fault_table_def isinstance_def)

theorem fault_translator_follows_table_witness:
  "raise_from_err (Exn GarminConnectAuthenticationError ''bad token'')
     = Inl (HTTPException 401 ''Authentication error'')
   \<and> raise_from_err (Exn GarminConnectTooManyRequestsError ''slow down'')
     = Inl (HTTPException 429 ''Too many requests'')
   \<and> raise_from_err (Exn GarminConnectConnectionError ''timeout'')
     = Inl (HTTPException 502 ''Upstream connection error'')
   \<and> raise_from_err (Exn (OtherException ''KeyError'') ''userData'')
     = Inl (HTTPException 500 ''userData'')"
  using fault_translator_follows_table [of "Exn GarminConnectAuthenticationError ''bad token''"]
    fault_translator_follows_table [of "Exn GarminConnectTooManyRequestsError ''slow down''"]
    fault_translator_follows_table [of "Exn GarminConnectConnectionError ''timeout''"]
    fault_translator_follows_table [of "Exn (OtherException ''KeyError'') ''userData''"]
  by auto

lemma summary_never_falls_off: "outcome (get_user_summary w cdate st) \<noteq> ReturnsNone"
  by (auto simp: handler_defs except_Exception_table split: sum.splits option.splits)

lemma activities_never_falls_off:
  "outcome (get_activities w start limit activitytype st) \<noteq> ReturnsNone"
  by (auto simp: handler_defs except_Exception_table split: sum.splits option.splits)

lemma download_never_falls_off: "outcome (download_activity w aid fmt st) \<noteq> ReturnsNone"
  by (auto simp: handler_defs except_Exception_table split: sum.splits option.splits)

lemma whoami_never_falls_off: "outcome (whoami w st) \<noteq> ReturnsNone"
  by (auto simp: handler_defs except_Exception_table split: sum.splits option.splits)

lemma login_never_falls_off: "outcome (login w body st) \<noteq> ReturnsNone"
  by (auto simp: handler_defs except_Exception_table
      split: sum.splits option.splits prod.splits)

lemma resume_never_falls_off: "outcome (resume_login w rb st) \<noteq> ReturnsNone"
  by (auto simp: handler_defs except_Exception_table
      split: sum.splits option.splits prod.splits)

text \<open>
  Claim C10. The fault translator never returns normally: for every exception it raises
  an \<^verbatim>\<open>HTTPException\<close> whose status is 401, 429, 502 or 500. So the \<^verbatim>\<open>except\<close> clause
  that calls it ends the request with one of those statuses, and no handler falls off its
  end behind it.
\<close>

theorem raise_from_err_always_raises:
  "(\<exists>http. raise_from_err err = Inl http \<and> status_code http \<in> {401, 429, 502, 500})
   \<and> (\<exists>http. (except_Exception err :: 'a outcome) = Raises http
        \<and> status_code http \<in> {401, 429, 502, 500})
   \<and> outcome (login w body st) \<noteq> ReturnsNone
   \<and> outcome (resume_login w rb st) \<noteq> ReturnsNone
   \<and> outcome (get_user_summary w cdate st) \<noteq> ReturnsNone
   \<and> outcome (get_activities w start limit activitytype st) \<noteq> ReturnsNone
   \<and> outcome (download_activity w aid fmt st) \<noteq> ReturnsNone
   \<and> outcome (whoami w st) \<noteq> ReturnsNone"
  using fault_table_status [of err]
  by (simp only: raise_from_err_table except_Exception_table summary_never_falls_off
      activities_never_falls_off download_never_falls_off whoami_never_falls_off
      login_never_falls_off resume_never_falls_off) auto

theorem raise_from_err_always_raises_witness:
  "raise_from_err (Exn FileNotFoundError ''/data/tokens'')
     = Inl (HTTPException 500 ''/data/tokens'')
   \<and> outcome (login demo_world wrong_request Map.empty)
     = Raises (HTTPException 401 ''Authentication error'')"
  using raise_from_err_always_raises [of "Exn FileNotFoundError ''/data/tokens''" demo_world
      wrong_request Map.empty]
  by (simp add: raise_from_err_def handler_defs demo_defs except_Exception_def)

subsection \<open>Failures while the stored session is loaded\<close>

text \<open>
  An exception leaves a handler exactly when loading the stored session raises one that
  is neither a missing file nor an authentication error; for \<^verbatim>\<open>login\<close> the load takes
  place only when the variable is set and non-empty.
\<close>

lemma summary_escapes_iff:
  "outcome (get_user_summary w cdate st) = Escapes err \<longleftrightarrow>
   Garmin_login w (Garmin None None False False) (Some (tokenstore_path w)) st = Inl err
   \<and> \<not> isinstance err FileNotFoundError
   \<and> \<not> isinstance err GarminConnectAuthenticationError"
  by (auto simp: handler_defs except_Exception_table split: sum.splits)

lemma login_escapes_iff:
  "outcome (login w body st) = Escapes err \<longleftrightarrow>
   getenv_GARMINTOKENS w \<noteq> None \<and> getenv_GARMINTOKENS w \<noteq> Some []
   \<and> Garmin_login w (Garmin None None False False) (Some (tokenstore_path w)) st = Inl err
   \<and> \<not> isinstance err FileNotFoundError
   \<and> \<not> isinstance err GarminConnectAuthenticationError"
  by (auto simp: handler_defs except_Exception_table tokenstore_path_def
      split: sum.splits option.splits prod.splits)

text \<open>
  Claim C1. Every failure of every endpoint should end in one of the five mapped
  outcomes, also a failure raised while the token store is loaded. The handlers do not do
  that: the call of \<^verbatim>\<open>_instantiate_api_from_tokenstore\<close> stands before their \<^verbatim>\<open>try\<close>, and
  its own \<^verbatim>\<open>except\<close> names two classes only. With the network down, the connection error
  of the load leaves each read-only handler as it is, although the fault translator maps
  that very exception to 502 when the guarded call raises it.
\<close>

theorem tokenstore_connection_error_escapes:
  "outcome (get_user_summary offline_world ''2024-01-01'' demo_store)
     = Escapes (Exn GarminConnectConnectionError ''Connection refused'')
   \<and> outcome (get_activities offline_world 0 20 None demo_store)
     = Escapes (Exn GarminConnectConnectionError ''Connection refused'')
   \<and> outcome (download_activity offline_world ''42'' ''TCX'' demo_store)
     = Escapes (Exn GarminConnectConnectionError ''Connection refused'')
   \<and> outcome (whoami offline_world demo_store)
     = Escapes (Exn GarminConnectConnectionError ''Connection refused'')
   \<and> raise_from_err (Exn GarminConnectConnectionError ''Connection refused'')
     = Inl (HTTPException 502 ''Upstream connection error'')"
  by (simp add: handler_defs demo_defs offline_world_def raise_from_err_def)

subsection \<open>The read-only handlers\<close>

lemma summary_not_logged_in:
  assumes "Garmin_login w (Garmin None None False False) (Some (tokenstore_path w)) st = Inl err"
    and "isinstance err FileNotFoundError \<or> isinstance err GarminConnectAuthenticationError"
  shows "get_user_summary w cdate st =
     \<lparr>outcome = Raises not_logged_in,
      events = [Call_login (Garmin None None False False) (Some (tokenstore_path w))],
      store = st\<rparr>"
  using assms by (auto simp: handler_defs)

lemma activities_not_logged_in:
  assumes "Garmin_login w (Garmin None None False False) (Some (tokenstore_path w)) st = Inl err"
    and "isinstance err FileNotFoundError \<or> isinstance err GarminConnectAuthenticationError"
  shows "get_activities w start limit activitytype st =
     \<lparr>outcome = Raises not_logged_in,
      events = [Call_login (Garmin None None False False) (Some (tokenstore_path w))],
      store = st\<rparr>"
  using assms by (auto simp: handler_defs)

lemma download_not_logged_in:
  assumes "Garmin_login w (Garmin None None False False) (Some (tokenstore_path w)) st = Inl err"
    and "isinstance err FileNotFoundError \<or> isinstance err GarminConnectAuthenticationError"
  shows "download_activity w aid fmt st =
     \<lparr>outcome = Raises not_logged_in,
      events = [Call_login (Garmin None None False False) (Some (tokenstore_path w))],
      store = st\<rparr>"
  using assms by (auto simp: handler_defs)

lemma whoami_not_logged_in:
  assumes "Garmin_login w (Garmin None None False False) (Some (tokenstore_path w)) st = Inl err"
    and "isinstance err FileNotFoundError \<or> isinstance err GarminConnectAuthenticationError"
  shows "whoami w st =
     \<lparr>outcome = Raises not_logged_in,
      events = [Call_login (Garmin None None False False) (Some (tokenstore_path w))],
      store = st\<rparr>"
  using assms by (auto simp: handler_defs)

lemma summary_no_interactive:
  "filter interactive_login (events (get_user_summary w cdate st)) = []"
  by (auto simp: handler_defs interactive_login_def split: sum.splits option.splits)

lemma activities_no_interactive:
  "filter interactive_login (events (get_activities w start limit activitytype st)) = []"
  by (auto simp: handler_defs interactive_login_def split: sum.splits option.splits)

lemma download_no_interactive:
  "filter interactive_login (events (download_activity w aid fmt st)) = []"
  by (auto simp: handler_defs interactive_login_def split: sum.splits option.splits)

lemma whoami_no_interactive:
  "filter interactive_login (events (whoami w st)) = []"
  by (auto simp: handler_defs interactive_login_def split: sum.splits option.splits)

text \<open>
  Claim C2, as the code has it. A read-only endpoint (summary, activities, download,
  whoami) only tries to reuse the stored session: in no world does one of these handlers
  call a login with credentials or a second factor. When loading the store fails with a
  missing file (\<^verbatim>\<open>FileNotFoundError\<close>) or an authentication error
  (\<^verbatim>\<open>GarminConnectAuthenticationError\<close>), the handler raises 401
  \<^verbatim>\<open>Not logged in. Use /login first.\<close> and has made no other upstream call.
\<close>

theorem read_only_never_logs_in:
  "(Garmin_login w (Garmin None None False False) (Some (tokenstore_path w)) st = Inl err
      \<and> (isinstance err FileNotFoundError \<or> isinstance err GarminConnectAuthenticationError)
    \<longrightarrow>
      get_user_summary w cdate st =
        \<lparr>outcome = Raises (HTTPException 401 ''Not logged in. Use /login first.''),
         events = [Call_login (Garmin None None False False) (Some (tokenstore_path w))],
         store = st\<rparr>
      \<and> get_activities w start limit activitytype st =
        \<lparr>outcome = Raises (HTTPException 401 ''Not logged in. Use /login first.''),
         events = [Call_login (Garmin None None False False) (Some (tokenstore_path w))],
         store = st\<rparr>
      \<and> download_activity w aid fmt st =
        \<lparr>outcome = Raises (HTTPException 401 ''Not logged in. Use /login first.''),
         events = [Call_login (Garmin None None False False) (Some (tokenstore_path w))],
         store = st\<rparr>
      \<and> whoami w st =
        \<lparr>outcome = Raises (HTTPException 401 ''Not logged in. Use /login first.''),
         events = [Call_login (Garmin None None False False) (Some (tokenstore_path w))],
         store = st\<rparr>)
   \<and> filter interactive_login (events (get_user_summary w cdate st)) = []
   \<and> filter interactive_login (events (get_activities w start limit activitytype st)) = []
   \<and> filter interactive_login (events (download_activity w aid fmt st)) = []
   \<and> filter interactive_login (events (whoami w st)) = []"
proof -
  have "get_user_summary w cdate st =
        \<lparr>outcome = Raises (HTTPException 401 ''Not logged in. Use /login first.''),
         events = [Call_login (Garmin None None False False) (Some (tokenstore_path w))],
         store = st\<rparr>
      \<and> get_activities w start limit activitytype st =
        \<lparr>outcome = Raises (HTTPException 401 ''Not logged in. Use /login first.''),
         events = [Call_login (Garmin None None False False) (Some (tokenstore_path w))],
         store = st\<rparr>
      \<and> download_activity w aid fmt st =
        \<lparr>outcome = Raises (HTTPException 401 ''Not logged in. Use /login first.''),
         events = [Call_login (Garmin None None False False) (Some (tokenstore_path w))],
         store = st\<rparr>
      \<and> whoami w st =
        \<lparr>outcome = Raises (HTTPException 401 ''Not logged in. Use /login first.''),
         events = [Call_login (Garmin None None False False) (Some (tokenstore_path w))],
         store = st\<rparr>"
    if load: "Garmin_login w (Garmin None None False False) (Some (tokenstore_path w)) st
        = Inl err"
      and cls: "isinstance err FileNotFoundError \<or> isinstance err GarminConnectAuthenticationError"
    using summary_not_logged_in [OF load cls] activities_not_logged_in [OF load cls]
      download_not_logged_in [OF load cls] whoami_not_logged_in [OF load cls]
    by (simp add: not_logged_in_def)
  then show ?thesis
    using summary_no_interactive [of w cdate st]
      activities_no_interactive [of w start limit activitytype st]
      download_no_interactive [of w aid fmt st] whoami_no_interactive [of w st]
    by blast
qed

theorem read_only_never_logs_in_witness:
  "Garmin_login demo_world (Garmin None None False False)
       (Some (tokenstore_path demo_world)) Map.empty
     = Inl (Exn FileNotFoundError ''/home/user/.garminconnect'')
   \<and> outcome (get_user_summary demo_world ''2024-01-01'' Map.empty)
     = Raises (HTTPException 401 ''Not logged in. Use /login first.'')
   \<and> outcome (whoami demo_world Map.empty)
     = Raises (HTTPException 401 ''Not logged in. Use /login first.'')
   \<and> events (whoami demo_world Map.empty)
     = [Call_login (Garmin None None False False) (Some ''/home/user/.garminconnect'')]"
proof -
  have load: "Garmin_login demo_world (Garmin None None False False)
       (Some (tokenstore_path demo_world)) Map.empty
     = Inl (Exn FileNotFoundError ''/home/user/.garminconnect'')"
    by (simp add: demo_defs)
  have cls: "isinstance (Exn FileNotFoundError ''/home/user/.garminconnect'') FileNotFoundError"
    by (simp add: isinstance_def)
  have path: "tokenstore_path demo_world = ''/home/user/.garminconnect''"
    by (simp add: demo_defs)
  from read_only_never_logs_in [of demo_world Map.empty
      "Exn FileNotFoundError ''/home/user/.garminconnect''" "''2024-01-01''" 0 20 None
      "''42''" "''TCX''"] load cls
  have "get_user_summary demo_world ''2024-01-01'' Map.empty =
        \<lparr>outcome = Raises (HTTPException 401 ''Not logged in. Use /login first.''),
         events = [Call_login (Garmin None None False False)
                     (Some (tokenstore_path demo_world))],
         store = Map.empty\<rparr>
      \<and> whoami demo_world Map.empty =
        \<lparr>outcome = Raises (HTTPException 401 ''Not logged in. Use /login first.''),
         events = [Call_login (Garmin None None False False)
                     (Some (tokenstore_path demo_world))],
         store = Map.empty\<rparr>"
    by blast
  with load show ?thesis by (simp add: path)
qed

text \<open>
  Claim C2 as stated fails for a store that is present but cannot be parsed: no valid
  stored session exists, yet the handler does not answer 401; the exception of the load
  leaves it.
\<close>

theorem corrupt_store_is_not_a_401:
  "spec_no_valid_session corrupt_store_world demo_store
   \<and> outcome (get_user_summary corrupt_store_world ''2024-01-01'' demo_store)
       = Escapes (Exn (OtherException ''JSONDecodeError'') ''Expecting value'')
   \<and> outcome (get_user_summary corrupt_store_world ''2024-01-01'' demo_store)
       \<noteq> Raises (HTTPException 401 ''Not logged in. Use /login first.'')
   \<and> outcome (whoami corrupt_store_world demo_store)
       \<noteq> Raises (HTTPException 401 ''Not logged in. Use /login first.'')"
  by (simp add: handler_defs demo_defs corrupt_store_world_def spec_no_valid_session_def)

subsection \<open>Base64 round trip\<close>

lemma b64_alphabet_length: "length b64_alphabet = 64"
  by (simp add: b64_alphabet_def)

lemma b64_alphabet_distinct: "distinct b64_alphabet"
  by (simp add: b64_alphabet_def)

lemma char_of_byte_of_char: "char_of_byte (byte_of_char c) = c"
  by (simp add: char_of_byte_def byte_of_char_def unat_of_nat)

lemma b64_index_digit: "n < 64 \<Longrightarrow> b64_index (char_of_byte (b64_digit n)) = Some n"
  unfolding b64_digit_def char_of_byte_of_char b64_index_def
  using map_of_zip_nth [of b64_alphabet "[0..<64]" n]
  by (simp add: b64_alphabet_length b64_alphabet_distinct)

lemma pad_not_in_alphabet: "CHR ''='' \<notin> set b64_alphabet"
  by (simp add: b64_alphabet_def)

lemma b64_index_pad: "b64_index (CHR ''='') = None"
  unfolding b64_index_def
  using map_of_zip_is_None [of b64_alphabet "[0..<64]" "CHR ''=''"]
  by (simp add: b64_alphabet_length pad_not_in_alphabet)

lemma char_of_pad: "char_of_byte b64_pad = CHR ''=''"
  by (simp add: b64_pad_def char_of_byte_of_char)

lemma digit_not_pad: "n < 64 \<Longrightarrow> char_of_byte (b64_digit n) \<noteq> CHR ''=''"
  using b64_index_digit [of n] b64_index_pad by auto

lemma unat_byte_less: "unat (b :: byte) < 256"
  using unsigned_less [of b] by simp

lemma decode_group2:
  fixes n :: nat
  shows "(n div 4096 * 64 + n div 64 mod 64) * 64 + n mod 64 = n"
proof -
  have "n div 4096 = n div 64 div 64"
    by (simp add: div_mult2_eq)
  then show ?thesis by simp
qed

lemma decode_group3:
  fixes n :: nat
  shows "((n div 262144 * 64 + n div 4096 mod 64) * 64 + n div 64 mod 64) * 64 + n mod 64 = n"
proof -
  have "n div 262144 = n div 64 div 64 div 64" "n div 4096 = n div 64 div 64"
    by (simp_all add: div_mult2_eq)
  then show ?thesis by simp
qed

lemma bytes_of_nat3:
  fixes b1 b2 b3 :: byte
  assumes "n = unat b1 * 65536 + unat b2 * 256 + unat b3"
  shows "of_nat (n div 65536) = b1" "of_nat (n div 256 mod 256) = b2" "of_nat (n mod 256) = b3"
proof -
  have l: "unat b1 < 256" "unat b2 < 256" "unat b3 < 256"
    by (rule unat_byte_less)+
  from assms l have "n div 65536 = unat b1" by simp
  then show "of_nat (n div 65536) = b1" by simp
  from assms l have "n div 256 = unat b1 * 256 + unat b2" by simp
  with l have "n div 256 mod 256 = unat b2" by simp
  then show "of_nat (n div 256 mod 256) = b2" by simp
  from assms have "n = (unat b1 * 256 + unat b2) * 256 + unat b3" by simp
  with l have "n mod 256 = unat b3" by (simp only: mod_mult_self3 mod_less)
  then show "of_nat (n mod 256) = b3" by simp
qed

lemma bytes_of_nat2:
  fixes b1 b2 :: byte
  assumes "n = unat b1 * 256 + unat b2"
  shows "of_nat (n div 256) = b1" "of_nat (n mod 256) = b2"
proof -
  have l: "unat b1 < 256" "unat b2 < 256"
    by (rule unat_byte_less)+
  from assms l have "n div 256 = unat b1" by simp
  then show "of_nat (n div 256) = b1" by simp
  from assms l have "n mod 256 = unat b2" by simp
  then show "of_nat (n mod 256) = b2" by simp
qed


lemma b64decode_quad:
  assumes "b64_index c1 = Some i1" "b64_index c2 = Some i2"
    and "b64_index c3 = Some i3" "b64_index c4 = Some i4"
    and "c3 \<noteq> CHR ''=''" "c4 \<noteq> CHR ''=''"
    and "((i1 * 64 + i2) * 64 + i3) * 64 + i4 = n"
  shows "b64decode (c1 # c2 # c3 # c4 # rest) =
    map_option ((@) [of_nat (n div 65536), of_nat (n div 256 mod 256), of_nat (n mod 256)])
      (b64decode rest)"
  using assms by (simp add: Let_def del: of_nat_mult of_nat_add)

lemma b64decode_last2:
  assumes "b64_index c1 = Some i1" "b64_index c2 = Some i2" "b64_index c3 = Some i3"
    and "c3 \<noteq> CHR ''=''"
    and "((i1 * 64 + i2) * 64 + i3) div 4 = n"
  shows "b64decode [c1, c2, c3, CHR ''=''] = Some [of_nat (n div 256), of_nat (n mod 256)]"
  using assms by (simp add: Let_def del: of_nat_mult of_nat_add)

lemma b64decode_last1:
  assumes "b64_index c1 = Some i1" "b64_index c2 = Some i2"
    and "(i1 * 64 + i2) div 16 = n"
  shows "b64decode [c1, c2, CHR ''='', CHR ''=''] = Some [of_nat n]"
  using assms by (simp del: of_nat_mult of_nat_add)

lemma b64_roundtrip: "b64decode (map char_of_byte (b64encode raw)) = Some raw"
proof (induction raw rule: b64encode.induct)
  case 1
  show ?case by simp
next
  case (2 b1)
  define n where "n = unat b1 * 16"
  have lt: "n div 64 < 64" "n mod 64 < 64"
    using unat_byte_less [of b1] by (simp_all add: n_def)
  have "n div 64 * 64 + n mod 64 = n"
    by (rule div_mult_mod_eq)
  then have eq: "(n div 64 * 64 + n mod 64) div 16 = unat b1"
    by (simp add: n_def)
  have "b64decode [char_of_byte (b64_digit (n div 64)), char_of_byte (b64_digit (n mod 64)),
      CHR ''='', CHR ''=''] = Some [of_nat (unat b1)]"
    by (rule b64decode_last1 [OF b64_index_digit [OF lt(1)] b64_index_digit [OF lt(2)] eq])
  then show ?case by (simp add: Let_def n_def char_of_pad)
next
  case (3 b1 b2)
  define n where "n = (unat b1 * 256 + unat b2) * 4"
  define m where "m = unat b1 * 256 + unat b2"
  have lt: "n div 4096 < 64" "n div 64 mod 64 < 64" "n mod 64 < 64"
    using unat_byte_less [of b1] unat_byte_less [of b2] by (simp_all add: n_def)
  have eq: "((n div 4096 * 64 + n div 64 mod 64) * 64 + n mod 64) div 4 = m"
    by (simp only: decode_group2) (simp add: n_def m_def)
  have "b64decode [char_of_byte (b64_digit (n div 4096)),
      char_of_byte (b64_digit (n div 64 mod 64)), char_of_byte (b64_digit (n mod 64)), CHR ''='']
    = Some [of_nat (m div 256), of_nat (m mod 256)]"
    by (rule b64decode_last2 [OF b64_index_digit [OF lt(1)] b64_index_digit [OF lt(2)]
          b64_index_digit [OF lt(3)] digit_not_pad [OF lt(3)] eq])
  then show ?case
    using bytes_of_nat2 [OF m_def] by (simp add: Let_def n_def char_of_pad)
next
  case (4 b1 b2 b3 rest)
  define n where "n = unat b1 * 65536 + unat b2 * 256 + unat b3"
  have lt: "n div 262144 < 64" "n div 4096 mod 64 < 64" "n div 64 mod 64 < 64" "n mod 64 < 64"
    using unat_byte_less [of b1] unat_byte_less [of b2] unat_byte_less [of b3]
    by (simp_all add: n_def)
  have "b64decode (char_of_byte (b64_digit (n div 262144)) #
      char_of_byte (b64_digit (n div 4096 mod 64)) #
      char_of_byte (b64_digit (n div 64 mod 64)) #
      char_of_byte (b64_digit (n mod 64)) # map char_of_byte (b64encode rest))
    = map_option ((@) [of_nat (n div 65536), of_nat (n div 256 mod 256), of_nat (n mod 256)])
        (b64decode (map char_of_byte (b64encode rest)))"
    by (rule b64decode_quad [OF b64_index_digit [OF lt(1)] b64_index_digit [OF lt(2)]
          b64_index_digit [OF lt(3)] b64_index_digit [OF lt(4)]
          digit_not_pad [OF lt(3)] digit_not_pad [OF lt(4)] decode_group3])
  then show ?case
    using bytes_of_nat3 [OF n_def] "4.IH" by (simp add: Let_def n_def)
qed


lemma alphabet_ascii: "list_all (\<lambda>c. of_char c < (128::nat)) b64_alphabet"
  by (simp add: b64_alphabet_def)

lemma unat_byte_of_char: "unat (byte_of_char c) = of_char c"
  by (simp add: byte_of_char_def unat_of_nat)

lemma digit_ascii: "n < 64 \<Longrightarrow> unat (b64_digit n) < 128"
  using alphabet_ascii
  by (simp add: b64_digit_def unat_byte_of_char list_all_length b64_alphabet_length)

lemma pad_ascii: "unat b64_pad < 128"
  by (simp add: b64_pad_def unat_byte_of_char)

lemma b64encode_ascii: "list_all (\<lambda>b. unat b < 128) (b64encode raw)"
proof (induction raw rule: b64encode.induct)
  case 1
  show ?case by simp
next
  case (2 b1)
  have "unat b1 * 16 div 64 < 64" "unat b1 * 16 mod 64 < 64"
    using unat_byte_less [of b1] by simp_all
  then show ?case
    by (simp add: Let_def digit_ascii pad_ascii del: mult_numeral_left)
next
  case (3 b1 b2)
  define n where "n = (unat b1 * 256 + unat b2) * 4"
  have "n div 4096 < 64" "n div 64 mod 64 < 64" "n mod 64 < 64"
    using unat_byte_less [of b1] unat_byte_less [of b2] by (simp_all add: n_def)
  then have "list_all (\<lambda>b. unat b < 128)
      [b64_digit (n div 4096), b64_digit (n div 64 mod 64), b64_digit (n mod 64), b64_pad]"
    by (simp add: digit_ascii pad_ascii)
  then show ?case by (simp add: Let_def n_def)
next
  case (4 b1 b2 b3 rest)
  define n where "n = unat b1 * 65536 + unat b2 * 256 + unat b3"
  have "n div 262144 < 64" "n div 4096 mod 64 < 64" "n div 64 mod 64 < 64" "n mod 64 < 64"
    using unat_byte_less [of b1] unat_byte_less [of b2] unat_byte_less [of b3]
    by (simp_all add: n_def)
  then have "list_all (\<lambda>b. unat b < 128)
      ([b64_digit (n div 262144), b64_digit (n div 4096 mod 64),
        b64_digit (n div 64 mod 64), b64_digit (n mod 64)] @ b64encode rest)"
    using "4.IH" by (simp add: digit_ascii)
  then show ?case by (simp add: Let_def n_def)
qed

lemma decode_ascii_b64encode:
  "decode_ascii (b64encode raw) = Inr (map char_of_byte (b64encode raw))"
  by (simp add: decode_ascii_def b64encode_ascii)

text \<open>
  Claim C7. Whenever the download handler returns a body, decoding its \<^verbatim>\<open>data_base64\<close>
  field as base64 gives back, byte for byte, what the upstream client returned for that
  activity and format: the field is the encoding of those bytes, the \<^verbatim>\<open>ascii\<close> decoding of
  the encoder's output never fails, and decoding inverts encoding.
\<close>

theorem download_roundtrip:
  assumes "outcome (download_activity w aid fmt st) = Returns r"
  shows "\<exists>garmin fmt_enum raw.
           fst (instantiate_api_from_tokenstore w (Some (tokenstore_path w)) st)
             = Inr (Some garmin)
           \<and> getattr_ActivityDownloadFormat w fmt = Inr fmt_enum
           \<and> Garmin_download_activity w garmin aid fmt_enum = Inr raw
           \<and> activity_id r = aid \<and> format r = fmt
           \<and> data_base64 r = map char_of_byte (b64encode raw)
           \<and> b64decode (data_base64 r) = Some raw"
  using assms
  by (auto simp: download_activity_def Let_def except_Exception_table decode_ascii_b64encode
      b64_roundtrip split: prod.splits sum.splits option.splits)


theorem download_roundtrip_witness:
  "outcome (download_activity demo_world ''42'' ''TCX'' demo_store)
     = Returns \<lparr>activity_id = ''42'', format = ''TCX'', data_base64 = ''TWFuIQ==''\<rparr>
   \<and> b64decode ''TWFuIQ=='' = Some [77, 97, 110, 33]"
proof -
  have enc: "map char_of_byte (b64encode [77, 97, 110, 33]) = ''TWFuIQ==''"
    by (simp add: b64_digit_def b64_pad_def b64_alphabet_def char_of_byte_of_char)
  have run: "outcome (download_activity demo_world ''42'' ''TCX'' demo_store)
      = Returns \<lparr>activity_id = ''42'', format = ''TCX'', data_base64 = ''TWFuIQ==''\<rparr>"
    by (simp add: handler_defs demo_defs decode_ascii_b64encode enc del: b64encode.simps)
  from download_roundtrip [OF run] obtain garmin fmt_enum raw
    where up: "Garmin_download_activity demo_world garmin ''42'' fmt_enum = Inr raw"
      and dec: "b64decode ''TWFuIQ=='' = Some raw"
    by auto
  from up have "raw = [77, 97, 110, 33]"
    by (simp add: demo_world_def)
  with run dec show ?thesis by simp
qed

subsection \<open>The login handlers, case by case\<close>

text \<open>
  What \<^verbatim>\<open>login\<close> and \<^verbatim>\<open>resume_login\<close> do, by the answer of the upstream: the run is written
  out for a failure, a second-factor challenge and a success.
\<close>

lemma login_reaches_credentials:
  assumes "Call_login (credentials_client body) None \<in> set (events (login w body st))"
  shows "\<exists>ev. login w body st = login_with_credentials w body st ev
            \<and> filter tokenstore_write ev = [] \<and> filter interactive_login ev = []"
  using assms
  by (auto simp: login_def instantiate_api_from_tokenstore_def Let_def tokenstore_write_def
      interactive_login_def split: option.splits sum.splits if_splits)

lemma credentials_needs_mfa:
  assumes "Garmin_login w (credentials_client body) None st
             = Inr ((PyStr ''needs_mfa'', token2), g)"
  shows "login_with_credentials w body st ev =
     \<lparr>outcome = Returns \<lparr>status = ''needs_mfa'', client_state = token2\<rparr>,
      events = ev @ [Call_login (credentials_client body) None], store = st\<rparr>"
  using assms by (simp add: login_with_credentials_def credentials_client_def Let_def)

lemma credentials_success:
  assumes "Garmin_login w (credentials_client body) None st = Inr ((token1, token2), g)"
    and "token1 \<noteq> PyStr ''needs_mfa''"
  shows "login_with_credentials w body st ev =
     \<lparr>outcome = Returns ok_response,
      events = ev @ [Call_login (credentials_client body) None, Call_dump (tokenstore_path w)],
      store = snd (garth_dump w g (tokenstore_path w) st)\<rparr>"
  using assms
  by (simp add: login_with_credentials_def credentials_client_def Let_def ok_response_def
      split: prod.splits)

lemma credentials_failure:
  assumes "Garmin_login w (credentials_client body) None st = Inl err"
  shows "login_with_credentials w body st ev =
     \<lparr>outcome = Raises (fault_table err),
      events = ev @ [Call_login (credentials_client body) None], store = st\<rparr>"
  using assms
  by (simp add: login_with_credentials_def credentials_client_def Let_def
      except_Exception_table)

lemma resume_success:
  assumes "Garmin_resume_login w (Garmin None None False True)
             (PyDict (resume_client_state rb)) (mfa_code rb) = Inr g"
  shows "resume_login w rb st =
     \<lparr>outcome = Returns ok_response,
      events = [Call_resume_login (PyDict (resume_client_state rb)) (mfa_code rb),
                Call_dump (tokenstore_path w)],
      store = snd (garth_dump w g (tokenstore_path w) st)\<rparr>"
  using assms by (simp add: resume_login_def Let_def ok_response_def split: prod.splits)

lemma resume_failure:
  assumes "Garmin_resume_login w (Garmin None None False True)
             (PyDict (resume_client_state rb)) (mfa_code rb) = Inl err"
  shows "resume_login w rb st =
     \<lparr>outcome = Raises (fault_table err),
      events = [Call_resume_login (PyDict (resume_client_state rb)) (mfa_code rb)],
      store = st\<rparr>"
  using assms by (simp add: resume_login_def Let_def except_Exception_table)

lemma login_cases:
  "(\<exists>ev. login w body st = login_with_credentials w body st ev
         \<and> filter tokenstore_write ev = [] \<and> filter interactive_login ev = [])
   \<or> (\<exists>out p. login w body st =
           \<lparr>outcome = out,
            events = [Call_login (Garmin None None False False) (Some p)], store = st\<rparr>
         \<and> (out = Returns ok_response \<or> (\<exists>err. out = Escapes err)))"
  by (auto simp: login_def instantiate_api_from_tokenstore_def Let_def tokenstore_write_def
      interactive_login_def ok_response_def split: option.splits sum.splits)

lemma credentials_cases:
  "(\<exists>err. Garmin_login w (credentials_client body) None st = Inl err
        \<and> login_with_credentials w body st ev =
            \<lparr>outcome = Raises (fault_table err),
             events = ev @ [Call_login (credentials_client body) None], store = st\<rparr>)
   \<or> (\<exists>token2 g. Garmin_login w (credentials_client body) None st
          = Inr ((PyStr ''needs_mfa'', token2), g)
        \<and> login_with_credentials w body st ev =
            \<lparr>outcome = Returns \<lparr>status = ''needs_mfa'', client_state = token2\<rparr>,
             events = ev @ [Call_login (credentials_client body) None], store = st\<rparr>)
   \<or> (\<exists>token1 token2 g. Garmin_login w (credentials_client body) None st
          = Inr ((token1, token2), g)
        \<and> token1 \<noteq> PyStr ''needs_mfa''
        \<and> login_with_credentials w body st ev =
            \<lparr>outcome = Returns ok_response,
             events = ev @ [Call_login (credentials_client body) None,
                            Call_dump (tokenstore_path w)],
             store = snd (garth_dump w g (tokenstore_path w) st)\<rparr>)"
proof (cases "Garmin_login w (credentials_client body) None st")
  case (Inl err)
  then show ?thesis using credentials_failure by blast
next
  case (Inr res)
  obtain token1 token2 g where res: "res = ((token1, token2), g)"
    by (metis prod.exhaust)
  show ?thesis
  proof (cases "token1 = PyStr ''needs_mfa''")
    case True
    with Inr res show ?thesis using credentials_needs_mfa by blast
  next
    case False
    with Inr res show ?thesis using credentials_success by blast
  qed
qed

lemma resume_cases:
  "(\<exists>err. Garmin_resume_login w (Garmin None None False True)
             (PyDict (resume_client_state rb)) (mfa_code rb) = Inl err
        \<and> resume_login w rb st =
            \<lparr>outcome = Raises (fault_table err),
             events = [Call_resume_login (PyDict (resume_client_state rb)) (mfa_code rb)],
             store = st\<rparr>)
   \<or> (\<exists>g. Garmin_resume_login w (Garmin None None False True)
             (PyDict (resume_client_state rb)) (mfa_code rb) = Inr g
        \<and> resume_login w rb st =
            \<lparr>outcome = Returns ok_response,
             events = [Call_resume_login (PyDict (resume_client_state rb)) (mfa_code rb),
                       Call_dump (tokenstore_path w)],
             store = snd (garth_dump w g (tokenstore_path w) st)\<rparr>)"
  using resume_failure resume_success
  by (cases "Garmin_resume_login w (Garmin None None False True)
             (PyDict (resume_client_state rb)) (mfa_code rb)") blast+

text \<open>
  Claim C5. When POST /login presents credentials and the upstream answers that a second
  factor is required (the marker \<^verbatim>\<open>needs_mfa\<close> with its challenge state), the response is
  \<^verbatim>\<open>{status: "needs_mfa", client_state: <that state>}\<close>, which is not null, and no session
  is produced: nothing is written to the token store. POST /login/resume with the same
  state and a one-time code the upstream accepts returns \<^verbatim>\<open>{status: "ok"}\<close>.
\<close>

theorem login_challenge_then_resume:
  assumes asked: "Call_login (credentials_client body) None \<in> set (events (login w body st))"
    and challenge: "Garmin_login w (credentials_client body) None st
                      = Inr ((PyStr ''needs_mfa'', PyDict cs), g)"
    and code_ok: "Garmin_resume_login w' (Garmin None None False True) (PyDict cs) code = Inr g'"
  shows "outcome (login w body st)
           = Returns \<lparr>status = ''needs_mfa'', client_state = PyDict cs\<rparr>
         \<and> PyDict cs \<noteq> PyNone
         \<and> store (login w body st) = st
         \<and> filter tokenstore_write (events (login w body st)) = []
         \<and> outcome (resume_login w' \<lparr>resume_client_state = cs, mfa_code = code\<rparr> st')
             = Returns \<lparr>status = ''ok'', client_state = PyNone\<rparr>"
proof -
  from login_reaches_credentials [OF asked] obtain ev
    where run: "login w body st = login_with_credentials w body st ev"
      and quiet: "filter tokenstore_write ev = []"
    by blast
  have "login w body st =
     \<lparr>outcome = Returns \<lparr>status = ''needs_mfa'', client_state = PyDict cs\<rparr>,
      events = ev @ [Call_login (credentials_client body) None], store = st\<rparr>"
    using run credentials_needs_mfa [OF challenge] by simp
  moreover have "outcome (resume_login w' \<lparr>resume_client_state = cs, mfa_code = code\<rparr> st')
      = Returns \<lparr>status = ''ok'', client_state = PyNone\<rparr>"
    using resume_success [of w' "\<lparr>resume_client_state = cs, mfa_code = code\<rparr>" g' st'] code_ok
    by (simp add: ok_response_def)
  ultimately show ?thesis
    using quiet by (simp add: tokenstore_write_def)
qed

theorem login_challenge_then_resume_witness:
  "outcome (login demo_world mfa_request demo_store)
     = Returns \<lparr>status = ''needs_mfa'', client_state = PyDict [(''ticket'', PyStr ''T1'')]\<rparr>
   \<and> store (login demo_world mfa_request demo_store) = demo_store
   \<and> outcome (resume_login demo_world
        \<lparr>resume_client_state = [(''ticket'', PyStr ''T1'')], mfa_code = ''123456''\<rparr> demo_store)
     = Returns \<lparr>status = ''ok'', client_state = PyNone\<rparr>"
proof -
  have asked: "Call_login (credentials_client mfa_request) None
      \<in> set (events (login demo_world mfa_request demo_store))"
    by (simp add: handler_defs demo_defs)
  have challenge: "Garmin_login demo_world (credentials_client mfa_request) None demo_store
      = Inr ((PyStr ''needs_mfa'', PyDict [(''ticket'', PyStr ''T1'')]),
             credentials_client mfa_request)"
    by (simp add: demo_defs)
  have code_ok: "Garmin_resume_login demo_world (Garmin None None False True)
      (PyDict [(''ticket'', PyStr ''T1'')]) ''123456''
      = Inr ((Garmin None None False True)\<lparr>g_garth := Some ''fresh''\<rparr>)"
    by (simp add: demo_defs)
  from login_challenge_then_resume [OF asked challenge code_ok, of demo_store]
  show ?thesis by simp
qed

text \<open>
  Claim C6. When the upstream login of POST /login, or the resume of POST /login/resume,
  succeeds, the handler returns \<^verbatim>\<open>{status: "ok"}\<close> whatever exception the write of the
  token store raises: the write is attempted, and its failure is swallowed.
\<close>

theorem persistence_is_best_effort:
  "(Call_login (credentials_client body) None \<in> set (events (login w body st))
      \<and> Garmin_login w (credentials_client body) None st = Inr ((token1, token2), g)
      \<and> token1 \<noteq> PyStr ''needs_mfa''
      \<and> fst (garth_dump w g (tokenstore_path w) st) = Some err
    \<longrightarrow> outcome (login w body st) = Returns \<lparr>status = ''ok'', client_state = PyNone\<rparr>
        \<and> Call_dump (tokenstore_path w) \<in> set (events (login w body st)))
   \<and> (Garmin_resume_login w (Garmin None None False True)
          (PyDict (resume_client_state rb)) (mfa_code rb) = Inr g'
      \<and> fst (garth_dump w g' (tokenstore_path w) st) = Some err'
    \<longrightarrow> outcome (resume_login w rb st) = Returns \<lparr>status = ''ok'', client_state = PyNone\<rparr>
        \<and> Call_dump (tokenstore_path w) \<in> set (events (resume_login w rb st)))"
proof (intro conjI impI)
  assume h: "Call_login (credentials_client body) None \<in> set (events (login w body st))
      \<and> Garmin_login w (credentials_client body) None st = Inr ((token1, token2), g)
      \<and> token1 \<noteq> PyStr ''needs_mfa''
      \<and> fst (garth_dump w g (tokenstore_path w) st) = Some err"
  then obtain ev where run: "login w body st = login_with_credentials w body st ev"
    using login_reaches_credentials by blast
  from h have eq: "login_with_credentials w body st ev =
     \<lparr>outcome = Returns ok_response,
      events = ev @ [Call_login (credentials_client body) None, Call_dump (tokenstore_path w)],
      store = snd (garth_dump w g (tokenstore_path w) st)\<rparr>"
    by (intro credentials_success) auto
  show "outcome (login w body st) = Returns \<lparr>status = ''ok'', client_state = PyNone\<rparr>"
    using run eq by (simp add: ok_response_def)
  show "Call_dump (tokenstore_path w) \<in> set (events (login w body st))"
    using run eq by simp
next
  assume h: "Garmin_resume_login w (Garmin None None False True)
          (PyDict (resume_client_state rb)) (mfa_code rb) = Inr g'
      \<and> fst (garth_dump w g' (tokenstore_path w) st) = Some err'"
  then have eq: "resume_login w rb st =
     \<lparr>outcome = Returns ok_response,
      events = [Call_resume_login (PyDict (resume_client_state rb)) (mfa_code rb),
                Call_dump (tokenstore_path w)],
      store = snd (garth_dump w g' (tokenstore_path w) st)\<rparr>"
    by (intro resume_success) auto
  show "outcome (resume_login w rb st) = Returns \<lparr>status = ''ok'', client_state = PyNone\<rparr>"
    using eq by (simp add: ok_response_def)
  show "Call_dump (tokenstore_path w) \<in> set (events (resume_login w rb st))"
    using eq by simp
qed

theorem persistence_is_best_effort_witness:
  "fst (garth_dump readonly_disk_world
          ((credentials_client plain_request)\<lparr>g_garth := Some ''fresh''\<rparr>)
          ''/home/user/.garminconnect'' Map.empty)
     = Some (Exn (OtherException ''PermissionError'') ''/home/user/.garminconnect'')
   \<and> outcome (login readonly_disk_world plain_request Map.empty)
     = Returns \<lparr>status = ''ok'', client_state = PyNone\<rparr>
   \<and> outcome (resume_login readonly_disk_world demo_resume Map.empty)
     = Returns \<lparr>status = ''ok'', client_state = PyNone\<rparr>
   \<and> store (login readonly_disk_world plain_request Map.empty) = Map.empty"
proof -
  have asked: "Call_login (credentials_client plain_request) None
      \<in> set (events (login readonly_disk_world plain_request Map.empty))"
    by (simp add: handler_defs demo_defs readonly_disk_world_def)
  have up: "Garmin_login readonly_disk_world (credentials_client plain_request) None Map.empty
      = Inr ((PyObject ''OAuth1Token'', PyObject ''OAuth2Token''),
             (credentials_client plain_request)\<lparr>g_garth := Some ''fresh''\<rparr>)"
    by (simp add: demo_defs readonly_disk_world_def)
  have path: "tokenstore_path readonly_disk_world = ''/home/user/.garminconnect''"
    by (simp add: demo_defs readonly_disk_world_def)
  have dump: "fst (garth_dump readonly_disk_world
          ((credentials_client plain_request)\<lparr>g_garth := Some ''fresh''\<rparr>)
          ''/home/user/.garminconnect'' Map.empty)
     = Some (Exn (OtherException ''PermissionError'') ''/home/user/.garminconnect'')"
    by (simp add: demo_defs readonly_disk_world_def)
  have up2: "Garmin_resume_login readonly_disk_world (Garmin None None False True)
      (PyDict (resume_client_state demo_resume)) (mfa_code demo_resume)
      = Inr ((Garmin None None False True)\<lparr>g_garth := Some ''fresh''\<rparr>)"
    by (simp add: demo_defs readonly_disk_world_def)
  have dump2: "fst (garth_dump readonly_disk_world
          ((Garmin None None False True)\<lparr>g_garth := Some ''fresh''\<rparr>)
          ''/home/user/.garminconnect'' Map.empty)
     = Some (Exn (OtherException ''PermissionError'') ''/home/user/.garminconnect'')"
    by (simp add: demo_defs readonly_disk_world_def)
  have st: "store (login readonly_disk_world plain_request Map.empty) = Map.empty"
    by (simp add: handler_defs demo_defs readonly_disk_world_def)
  from persistence_is_best_effort [of plain_request readonly_disk_world Map.empty
      "PyObject ''OAuth1Token''" "PyObject ''OAuth2Token''"
      "(credentials_client plain_request)\<lparr>g_garth := Some ''fresh''\<rparr>"
      "Exn (OtherException ''PermissionError'') ''/home/user/.garminconnect''"
      demo_resume "(Garmin None None False True)\<lparr>g_garth := Some ''fresh''\<rparr>"
      "Exn (OtherException ''PermissionError'') ''/home/user/.garminconnect''"]
  show ?thesis
    using asked up dump up2 dump2 st by (simp add: path)
qed

subsection \<open>Invariant of the login responses\<close>

lemma login_invariant:
  assumes "outcome (login w body st) = Returns r"
  shows "(client_state r \<noteq> PyNone \<longrightarrow> status r = ''needs_mfa'')
      \<and> (status r = ''ok'' \<longrightarrow> client_state r = PyNone)
      \<and> (status r = ''ok'' \<or> status r = ''needs_mfa'')
      \<and> (status r = ''needs_mfa'' \<longrightarrow>
           (\<exists>g. Garmin_login w (credentials_client body) None st
                  = Inr ((PyStr ''needs_mfa'', client_state r), g)))"
proof -
  consider (creds) ev where "login w body st = login_with_credentials w body st ev"
    | (reuse) "outcome (login w body st) = Returns ok_response"
    | (escape) err where "outcome (login w body st) = Escapes err"
    using login_cases [of w body st] by auto
  then show ?thesis
  proof cases
    case creds
    with credentials_cases [of w body st ev] assms show ?thesis
      by (auto simp: ok_response_def)
  next
    case reuse
    with assms show ?thesis by (auto simp: ok_response_def)
  next
    case escape
    with assms show ?thesis by simp
  qed
qed

lemma resume_invariant:
  assumes "outcome (resume_login w rb st) = Returns r"
  shows "status r = ''ok'' \<and> client_state r = PyNone"
  using resume_cases [of w rb st] assms by (auto simp: ok_response_def)

text \<open>
  Claim C9, as the code has it. In every body POST /login and POST /login/resume return,
  the status is \<^verbatim>\<open>ok\<close> or \<^verbatim>\<open>needs_mfa\<close> (always \<^verbatim>\<open>ok\<close> for resume); a body with status \<^verbatim>\<open>ok\<close>
  has a null \<^verbatim>\<open>client_state\<close>; a non-null \<^verbatim>\<open>client_state\<close> comes with status \<^verbatim>\<open>needs_mfa\<close>
  only; and a body with status \<^verbatim>\<open>needs_mfa\<close> carries, unchanged, the second value the
  upstream login returned with that marker.
\<close>

theorem login_response_invariant:
  "(outcome (login w body st) = Returns r \<longrightarrow>
      (client_state r \<noteq> PyNone \<longrightarrow> status r = ''needs_mfa'')
      \<and> (status r = ''ok'' \<longrightarrow> client_state r = PyNone)
      \<and> (status r = ''ok'' \<or> status r = ''needs_mfa'')
      \<and> (status r = ''needs_mfa'' \<longrightarrow>
           (\<exists>g. Garmin_login w (credentials_client body) None st
                  = Inr ((PyStr ''needs_mfa'', client_state r), g))))
   \<and> (outcome (resume_login w rb st) = Returns r' \<longrightarrow>
        status r' = ''ok'' \<and> client_state r' = PyNone)"
  using login_invariant [of w body st r] resume_invariant [of w rb st r'] by blast

theorem login_response_invariant_witness:
  "outcome (login demo_world mfa_request demo_store)
     = Returns \<lparr>status = ''needs_mfa'', client_state = PyDict [(''ticket'', PyStr ''T1'')]\<rparr>
   \<and> outcome (resume_login demo_world demo_resume demo_store)
     = Returns \<lparr>status = ''ok'', client_state = PyNone\<rparr>
   \<and> (\<exists>g. Garmin_login demo_world (credentials_client mfa_request) None demo_store
            = Inr ((PyStr ''needs_mfa'', PyDict [(''ticket'', PyStr ''T1'')]), g))"
proof -
  have r1: "outcome (login demo_world mfa_request demo_store)
     = Returns \<lparr>status = ''needs_mfa'', client_state = PyDict [(''ticket'', PyStr ''T1'')]\<rparr>"
    by (simp add: handler_defs demo_defs)
  have r3: "outcome (resume_login demo_world demo_resume demo_store)
     = Returns \<lparr>status = ''ok'', client_state = PyNone\<rparr>"
    by (simp add: handler_defs demo_defs)
  from login_response_invariant [of demo_world mfa_request demo_store
      "\<lparr>status = ''needs_mfa'', client_state = PyDict [(''ticket'', PyStr ''T1'')]\<rparr>"
      demo_resume "\<lparr>status = ''ok'', client_state = PyNone\<rparr>"]
  show ?thesis using r1 r3 by simp
qed

text \<open>
  Claim C9 as stated fails when the upstream returns the marker \<^verbatim>\<open>needs_mfa\<close> with \<^verbatim>\<open>None\<close>:
  line 86 passes the second value on as it is, so the body has status \<^verbatim>\<open>needs_mfa\<close> and a
  null \<^verbatim>\<open>client_state\<close>.
\<close>

theorem needs_mfa_without_state:
  "outcome (login stateless_challenge_world mfa_request Map.empty)
     = Returns \<lparr>status = ''needs_mfa'', client_state = PyNone\<rparr>"
  by (simp add: handler_defs demo_defs stateless_challenge_world_def)

subsection \<open>Who writes the token store\<close>

lemma summary_frame:
  "store (get_user_summary w cdate st) = st
   \<and> filter tokenstore_write (events (get_user_summary w cdate st)) = []"
  by (auto simp: handler_defs tokenstore_write_def split: sum.splits option.splits)

lemma activities_frame:
  "store (get_activities w start limit activitytype st) = st
   \<and> filter tokenstore_write (events (get_activities w start limit activitytype st)) = []"
  by (auto simp: handler_defs tokenstore_write_def split: sum.splits option.splits)

lemma download_frame:
  "store (download_activity w aid fmt st) = st
   \<and> filter tokenstore_write (events (download_activity w aid fmt st)) = []"
  by (auto simp: handler_defs tokenstore_write_def split: sum.splits option.splits)

lemma whoami_frame:
  "store (whoami w st) = st \<and> filter tokenstore_write (events (whoami w st)) = []"
  by (auto simp: handler_defs tokenstore_write_def split: sum.splits option.splits)

lemma login_frame:
  "(store (login w body st) = st \<and> filter tokenstore_write (events (login w body st)) = []
      \<and> outcome (login w body st) \<noteq> Returns ok_response)
   \<or> (store (login w body st) = st \<and> filter tokenstore_write (events (login w body st)) = []
      \<and> filter interactive_login (events (login w body st)) = [])
   \<or> (\<exists>token1 token2 g ev.
         Garmin_login w (credentials_client body) None st = Inr ((token1, token2), g)
         \<and> token1 \<noteq> PyStr ''needs_mfa''
         \<and> outcome (login w body st) = Returns ok_response
         \<and> events (login w body st)
             = ev @ [Call_login (credentials_client body) None, Call_dump (tokenstore_path w)]
         \<and> filter tokenstore_write ev = []
         \<and> store (login w body st) = snd (garth_dump w g (tokenstore_path w) st))"
proof -
  consider (creds) ev where "login w body st = login_with_credentials w body st ev"
      "filter tokenstore_write ev = []"
    | (reuse) out p where "login w body st =
           \<lparr>outcome = out,
            events = [Call_login (Garmin None None False False) (Some p)], store = st\<rparr>"
    using login_cases [of w body st] by auto
  then show ?thesis
  proof cases
    case creds
    consider (failure) err where "login_with_credentials w body st ev =
            \<lparr>outcome = Raises (fault_table err),
             events = ev @ [Call_login (credentials_client body) None], store = st\<rparr>"
      | (challenge) token2 where "login_with_credentials w body st ev =
            \<lparr>outcome = Returns \<lparr>status = ''needs_mfa'', client_state = token2\<rparr>,
             events = ev @ [Call_login (credentials_client body) None], store = st\<rparr>"
      | (success) token1 token2 g where
          "Garmin_login w (credentials_client body) None st = Inr ((token1, token2), g)"
          "token1 \<noteq> PyStr ''needs_mfa''"
          "login_with_credentials w body st ev =
            \<lparr>outcome = Returns ok_response,
             events = ev @ [Call_login (credentials_client body) None,
                            Call_dump (tokenstore_path w)],
             store = snd (garth_dump w g (tokenstore_path w) st)\<rparr>"
      using credentials_cases [of w body st ev] by auto
    then show ?thesis
    proof cases
      case failure
      with creds show ?thesis by (simp add: tokenstore_write_def)
    next
      case challenge
      with creds show ?thesis by (simp add: tokenstore_write_def ok_response_def)
    next
      case success
      with creds have "Garmin_login w (credentials_client body) None st
            = Inr ((token1, token2), g)
         \<and> token1 \<noteq> PyStr ''needs_mfa''
         \<and> outcome (login w body st) = Returns ok_response
         \<and> events (login w body st)
             = ev @ [Call_login (credentials_client body) None, Call_dump (tokenstore_path w)]
         \<and> filter tokenstore_write ev = []
         \<and> store (login w body st) = snd (garth_dump w g (tokenstore_path w) st)"
        by simp
      then show ?thesis by blast
    qed
  next
    case reuse
    then show ?thesis by (simp add: tokenstore_write_def interactive_login_def)
  qed
qed


lemma resume_frame:
  "(store (resume_login w rb st) = st
      \<and> filter tokenstore_write (events (resume_login w rb st)) = []
      \<and> outcome (resume_login w rb st) \<noteq> Returns ok_response)
   \<or> (\<exists>g. Garmin_resume_login w (Garmin None None False True)
               (PyDict (resume_client_state rb)) (mfa_code rb) = Inr g
         \<and> outcome (resume_login w rb st) = Returns ok_response
         \<and> events (resume_login w rb st)
             = [Call_resume_login (PyDict (resume_client_state rb)) (mfa_code rb),
                Call_dump (tokenstore_path w)]
         \<and> store (resume_login w rb st) = snd (garth_dump w g (tokenstore_path w) st))"
  using resume_cases [of w rb st] by (auto simp: tokenstore_write_def)

text \<open>
  Claim C8. The token store is written by POST /login and POST /login/resume only, and
  only after the upstream login or resume has succeeded. The read-only handlers never
  write it; a login or resume that does not end in \<^verbatim>\<open>{status: "ok"}\<close> (a failure, or the
  \<^verbatim>\<open>needs_mfa\<close> challenge) leaves it as it was; and when it is written, the write is the
  last call of the handler, right after the successful upstream call.
\<close>

theorem token_store_written_only_after_login:
  "store (get_user_summary w cdate st) = st
   \<and> filter tokenstore_write (events (get_user_summary w cdate st)) = []
   \<and> store (get_activities w start limit activitytype st) = st
   \<and> filter tokenstore_write (events (get_activities w start limit activitytype st)) = []
   \<and> store (download_activity w aid fmt st) = st
   \<and> filter tokenstore_write (events (download_activity w aid fmt st)) = []
   \<and> store (whoami w st) = st
   \<and> filter tokenstore_write (events (whoami w st)) = []
   \<and> (outcome (login w body st) \<noteq> Returns \<lparr>status = ''ok'', client_state = PyNone\<rparr> \<longrightarrow>
        store (login w body st) = st
        \<and> filter tokenstore_write (events (login w body st)) = [])
   \<and> (outcome (resume_login w rb st) \<noteq> Returns \<lparr>status = ''ok'', client_state = PyNone\<rparr> \<longrightarrow>
        store (resume_login w rb st) = st
        \<and> filter tokenstore_write (events (resume_login w rb st)) = [])
   \<and> (store (login w body st) \<noteq> st
        \<or> filter tokenstore_write (events (login w body st)) \<noteq> [] \<longrightarrow>
        (\<exists>token1 token2 g ev.
           Garmin_login w (credentials_client body) None st = Inr ((token1, token2), g)
           \<and> token1 \<noteq> PyStr ''needs_mfa''
           \<and> events (login w body st)
               = ev @ [Call_login (credentials_client body) None,
                       Call_dump (tokenstore_path w)]
           \<and> filter tokenstore_write ev = []
           \<and> store (login w body st) = snd (garth_dump w g (tokenstore_path w) st)))
   \<and> (store (resume_login w rb st) \<noteq> st
        \<or> filter tokenstore_write (events (resume_login w rb st)) \<noteq> [] \<longrightarrow>
        (\<exists>g. Garmin_resume_login w (Garmin None None False True)
                 (PyDict (resume_client_state rb)) (mfa_code rb) = Inr g
           \<and> events (resume_login w rb st)
               = [Call_resume_login (PyDict (resume_client_state rb)) (mfa_code rb),
                  Call_dump (tokenstore_path w)]
           \<and> store (resume_login w rb st) = snd (garth_dump w g (tokenstore_path w) st)))"
proof -
  have login1: "outcome (login w body st) \<noteq> Returns \<lparr>status = ''ok'', client_state = PyNone\<rparr>
      \<longrightarrow> store (login w body st) = st
        \<and> filter tokenstore_write (events (login w body st)) = []"
    using login_frame [of w body st] by (auto simp: ok_response_def)
  have login2: "store (login w body st) \<noteq> st
        \<or> filter tokenstore_write (events (login w body st)) \<noteq> [] \<longrightarrow>
        (\<exists>token1 token2 g ev.
           Garmin_login w (credentials_client body) None st = Inr ((token1, token2), g)
           \<and> token1 \<noteq> PyStr ''needs_mfa''
           \<and> events (login w body st)
               = ev @ [Call_login (credentials_client body) None,
                       Call_dump (tokenstore_path w)]
           \<and> filter tokenstore_write ev = []
           \<and> store (login w body st) = snd (garth_dump w g (tokenstore_path w) st))"
    using login_frame [of w body st] by blast
  have resume1: "outcome (resume_login w rb st)
        \<noteq> Returns \<lparr>status = ''ok'', client_state = PyNone\<rparr>
      \<longrightarrow> store (resume_login w rb st) = st
        \<and> filter tokenstore_write (events (resume_login w rb st)) = []"
    using resume_frame [of w rb st] by (auto simp: ok_response_def)
  have resume2: "store (resume_login w rb st) \<noteq> st
        \<or> filter tokenstore_write (events (resume_login w rb st)) \<noteq> [] \<longrightarrow>
        (\<exists>g. Garmin_resume_login w (Garmin None None False True)
                 (PyDict (resume_client_state rb)) (mfa_code rb) = Inr g
           \<and> events (resume_login w rb st)
               = [Call_resume_login (PyDict (resume_client_state rb)) (mfa_code rb),
                  Call_dump (tokenstore_path w)]
           \<and> store (resume_login w rb st) = snd (garth_dump w g (tokenstore_path w) st))"
    using resume_frame [of w rb st] by blast
  from summary_frame [of w cdate st] activities_frame [of w start limit activitytype st]
    download_frame [of w aid fmt st] whoami_frame [of w st] login1 login2 resume1 resume2
  show ?thesis by (intro conjI) (erule conjunct1 conjunct2 | assumption)+
qed

theorem token_store_written_only_after_login_witness:
  "outcome (login demo_world wrong_request demo_store)
     = Raises (HTTPException 401 ''Authentication error'')
   \<and> store (login demo_world wrong_request demo_store) = demo_store
   \<and> outcome (login demo_world mfa_request demo_store)
     = Returns \<lparr>status = ''needs_mfa'', client_state = PyDict [(''ticket'', PyStr ''T1'')]\<rparr>
   \<and> store (login demo_world mfa_request demo_store) = demo_store
   \<and> filter tokenstore_write (events (login demo_world mfa_request demo_store)) = []
   \<and> store (login demo_world plain_request Map.empty)
     = [''/home/user/.garminconnect'' \<mapsto> ''fresh'']
   \<and> events (login demo_world plain_request Map.empty)
     = [Call_login (credentials_client plain_request) None,
        Call_dump ''/home/user/.garminconnect'']"
proof -
  have r1: "outcome (login demo_world wrong_request demo_store)
     = Raises (HTTPException 401 ''Authentication error'')"
    by (simp add: handler_defs demo_defs except_Exception_table fault_table_def)
  have r2: "outcome (login demo_world mfa_request demo_store)
     = Returns \<lparr>status = ''needs_mfa'', client_state = PyDict [(''ticket'', PyStr ''T1'')]\<rparr>"
    by (simp add: handler_defs demo_defs)
  have r3: "store (login demo_world plain_request Map.empty)
     = [''/home/user/.garminconnect'' \<mapsto> ''fresh'']"
    "events (login demo_world plain_request Map.empty)
     = [Call_login (credentials_client plain_request) None,
        Call_dump ''/home/user/.garminconnect'']"
    by (simp_all add: handler_defs demo_defs)
  have s1: "store (login demo_world wrong_request demo_store) = demo_store"
    using r1 token_store_written_only_after_login [of demo_world "''2024-01-01''" demo_store
      0 20 None "''42''" "''TCX''" wrong_request demo_resume]
    by simp
  have s2: "store (login demo_world mfa_request demo_store) = demo_store
      \<and> filter tokenstore_write (events (login demo_world mfa_request demo_store)) = []"
    using r2 token_store_written_only_after_login [of demo_world "''2024-01-01''" demo_store
      0 20 None "''42''" "''TCX''" mfa_request demo_resume]
    by simp
  from r1 r2 r3 s1 s2 show ?thesis by simp
qed

subsection \<open>Which path is read and written\<close>

lemma summary_reads:
  "filter tokenstore_read (events (get_user_summary w cdate st))
     = [Call_login (Garmin None None False False) (Some (tokenstore_path w))]"
  by (auto simp: handler_defs tokenstore_read_def split: sum.splits option.splits)

lemma activities_reads:
  "filter tokenstore_read (events (get_activities w start limit activitytype st))
     = [Call_login (Garmin None None False False) (Some (tokenstore_path w))]"
  by (auto simp: handler_defs tokenstore_read_def split: sum.splits option.splits)

lemma download_reads:
  "filter tokenstore_read (events (download_activity w aid fmt st))
     = [Call_login (Garmin None None False False) (Some (tokenstore_path w))]"
  by (auto simp: handler_defs tokenstore_read_def split: sum.splits option.splits)

lemma whoami_reads:
  "filter tokenstore_read (events (whoami w st))
     = [Call_login (Garmin None None False False) (Some (tokenstore_path w))]"
  by (auto simp: handler_defs tokenstore_read_def split: sum.splits option.splits)

lemma credentials_reads:
  "filter tokenstore_read (events (login_with_credentials w body st ev))
     = filter tokenstore_read ev"
  using credentials_cases [of w body st ev] by (auto simp: tokenstore_read_def)

lemma login_reads:
  "filter tokenstore_read (events (login w body st))
     = (if getenv_GARMINTOKENS w = None \<or> getenv_GARMINTOKENS w = Some [] then []
        else [Call_login (Garmin None None False False) (Some (tokenstore_path w))])"
  by (auto simp: login_def instantiate_api_from_tokenstore_def Let_def credentials_reads
      tokenstore_read_def tokenstore_path_def split: option.splits sum.splits)

lemma resume_reads: "filter tokenstore_read (events (resume_login w rb st)) = []"
  using resume_cases [of w rb st] by (auto simp: tokenstore_read_def)

lemma login_writes:
  assumes "Call_login (credentials_client body) None \<in> set (events (login w body st))"
    and "Garmin_login w (credentials_client body) None st = Inr ((token1, token2), g)"
    and "token1 \<noteq> PyStr ''needs_mfa''"
  shows "filter tokenstore_write (events (login w body st)) = [Call_dump (tokenstore_path w)]"
proof -
  from login_reaches_credentials [OF assms(1)] obtain ev
    where "login w body st = login_with_credentials w body st ev"
      and "filter tokenstore_write ev = []"
    by blast
  with credentials_success [OF assms(2,3), of ev] show ?thesis
    by (simp add: tokenstore_write_def)
qed

lemma resume_writes:
  assumes "Garmin_resume_login w (Garmin None None False True)
             (PyDict (resume_client_state rb)) (mfa_code rb) = Inr g"
  shows "filter tokenstore_write (events (resume_login w rb st))
           = [Call_dump (tokenstore_path w)]"
  using resume_success [OF assms, of st] by (simp add: tokenstore_write_def)

text \<open>
  Claim C3, as the code has it. The token-store path is the value of the environment
  variable when that is set to a non-empty string, and the per-user default when it is
  unset or empty. Every read-only request reads this path, once. POST /login reads it only
  when the variable is set and non-empty, and otherwise makes no reuse attempt at all; POST
  /login/resume never reads the store. On every successful fresh login and every
  successful resume one write to this path is attempted.
\<close>

theorem tokenstore_path_read_and_written:
  "(getenv_GARMINTOKENS w = Some p \<and> p \<noteq> [] \<longrightarrow> tokenstore_path w = p)
   \<and> (getenv_GARMINTOKENS w = None \<or> getenv_GARMINTOKENS w = Some [] \<longrightarrow>
        tokenstore_path w = expanduser w ''~/.garminconnect'')
   \<and> filter tokenstore_read (events (get_user_summary w cdate st))
       = [Call_login (Garmin None None False False) (Some (tokenstore_path w))]
   \<and> filter tokenstore_read (events (get_activities w start limit activitytype st))
       = [Call_login (Garmin None None False False) (Some (tokenstore_path w))]
   \<and> filter tokenstore_read (events (download_activity w aid fmt st))
       = [Call_login (Garmin None None False False) (Some (tokenstore_path w))]
   \<and> filter tokenstore_read (events (whoami w st))
       = [Call_login (Garmin None None False False) (Some (tokenstore_path w))]
   \<and> filter tokenstore_read (events (login w body st))
       = (if getenv_GARMINTOKENS w = None \<or> getenv_GARMINTOKENS w = Some [] then []
          else [Call_login (Garmin None None False False) (Some (tokenstore_path w))])
   \<and> filter tokenstore_read (events (resume_login w rb st)) = []
   \<and> (Call_login (credentials_client body) None \<in> set (events (login w body st))
        \<and> Garmin_login w (credentials_client body) None st = Inr ((token1, token2), g)
        \<and> token1 \<noteq> PyStr ''needs_mfa'' \<longrightarrow>
        filter tokenstore_write (events (login w body st)) = [Call_dump (tokenstore_path w)])
   \<and> (Garmin_resume_login w (Garmin None None False True)
          (PyDict (resume_client_state rb)) (mfa_code rb) = Inr g' \<longrightarrow>
        filter tokenstore_write (events (resume_login w rb st))
          = [Call_dump (tokenstore_path w)])"
proof -
  have path1: "getenv_GARMINTOKENS w = Some p \<and> p \<noteq> [] \<longrightarrow> tokenstore_path w = p"
    by (simp add: tokenstore_path_def)
  have path2: "getenv_GARMINTOKENS w = None \<or> getenv_GARMINTOKENS w = Some [] \<longrightarrow>
        tokenstore_path w = expanduser w ''~/.garminconnect''"
    by (auto simp: tokenstore_path_def)
  have w1: "Call_login (credentials_client body) None \<in> set (events (login w body st))
        \<and> Garmin_login w (credentials_client body) None st = Inr ((token1, token2), g)
        \<and> token1 \<noteq> PyStr ''needs_mfa'' \<longrightarrow>
        filter tokenstore_write (events (login w body st)) = [Call_dump (tokenstore_path w)]"
    using login_writes by blast
  have w2: "Garmin_resume_login w (Garmin None None False True)
          (PyDict (resume_client_state rb)) (mfa_code rb) = Inr g' \<longrightarrow>
        filter tokenstore_write (events (resume_login w rb st))
          = [Call_dump (tokenstore_path w)]"
    using resume_writes by blast
  from path1 path2 summary_reads [of w cdate st]
    activities_reads [of w start limit activitytype st] download_reads [of w aid fmt st]
    whoami_reads [of w st] login_reads [of w body st] resume_reads [of w rb st] w1 w2
  show ?thesis by (intro conjI) assumption+
qed

theorem tokenstore_path_read_and_written_witness:
  "tokenstore_path (demo_world\<lparr>getenv_GARMINTOKENS := Some ''/data/tokens''\<rparr>) = ''/data/tokens''
   \<and> tokenstore_path demo_world = ''/home/user/.garminconnect''
   \<and> filter tokenstore_write (events (login demo_world plain_request demo_store))
       = [Call_dump ''/home/user/.garminconnect'']
   \<and> filter tokenstore_write (events (resume_login demo_world demo_resume demo_store))
       = [Call_dump ''/home/user/.garminconnect'']"
proof -
  have env: "getenv_GARMINTOKENS (demo_world\<lparr>getenv_GARMINTOKENS := Some ''/data/tokens''\<rparr>)
      = Some ''/data/tokens''" "getenv_GARMINTOKENS demo_world = None"
    "expanduser demo_world ''~/.garminconnect'' = ''/home/user/.garminconnect''"
    by (simp_all add: demo_world_def)
  have p1: "tokenstore_path (demo_world\<lparr>getenv_GARMINTOKENS := Some ''/data/tokens''\<rparr>)
      = ''/data/tokens''"
    using env tokenstore_path_read_and_written
      [of "demo_world\<lparr>getenv_GARMINTOKENS := Some ''/data/tokens''\<rparr>" "''/data/tokens''"]
    by simp
  have asked: "Call_login (credentials_client plain_request) None
      \<in> set (events (login demo_world plain_request demo_store))"
    by (simp add: handler_defs demo_defs)
  have up: "Garmin_login demo_world (credentials_client plain_request) None demo_store
      = Inr ((PyObject ''OAuth1Token'', PyObject ''OAuth2Token''),
             (credentials_client plain_request)\<lparr>g_garth := Some ''fresh''\<rparr>)"
    by (simp add: demo_defs)
  have up2: "Garmin_resume_login demo_world (Garmin None None False True)
      (PyDict (resume_client_state demo_resume)) (mfa_code demo_resume)
      = Inr ((Garmin None None False True)\<lparr>g_garth := Some ''fresh''\<rparr>)"
    by (simp add: demo_defs)
  note T = tokenstore_path_read_and_written [of demo_world "[]" "''2024-01-01''" demo_store
      0 20 None "''42''" "''TCX''" plain_request demo_resume
      "PyObject ''OAuth1Token''" "PyObject ''OAuth2Token''"
      "(credentials_client plain_request)\<lparr>g_garth := Some ''fresh''\<rparr>"
      "(Garmin None None False True)\<lparr>g_garth := Some ''fresh''\<rparr>"]
  have p2: "tokenstore_path demo_world = ''/home/user/.garminconnect''"
    using env T by simp
  have "filter tokenstore_write (events (login demo_world plain_request demo_store))
       = [Call_dump (tokenstore_path demo_world)]
   \<and> filter tokenstore_write (events (resume_login demo_world demo_resume demo_store))
       = [Call_dump (tokenstore_path demo_world)]"
    using asked up up2 T by simp
  with p1 p2 show ?thesis by simp
qed

text \<open>
  Claim C3 as stated fails when the variable is set to the empty string: the path is then
  not the variable's value but the default, which is what the read-only handlers read,
  and POST /login attempts no reuse although the variable is set.
\<close>

theorem empty_variable_is_not_the_path:
  "getenv_GARMINTOKENS empty_env_world = Some []
   \<and> spec_tokenstore_path empty_env_world = []
   \<and> tokenstore_path empty_env_world = ''/home/user/.garminconnect''
   \<and> tokenstore_path empty_env_world \<noteq> spec_tokenstore_path empty_env_world
   \<and> filter tokenstore_read (events (get_user_summary empty_env_world ''2024-01-01'' demo_store))
       = [Call_login (Garmin None None False False) (Some ''/home/user/.garminconnect'')]
   \<and> filter tokenstore_read (events (get_user_summary empty_env_world ''2024-01-01'' demo_store))
       \<noteq> [Call_login (Garmin None None False False)
             (Some (spec_tokenstore_path empty_env_world))]
   \<and> filter tokenstore_read (events (login empty_env_world plain_request demo_store)) = []"
  by (simp add: handler_defs demo_defs empty_env_world_def spec_tokenstore_path_def
      tokenstore_read_def)

end
